theory Spec2Isabelle
  imports Main
begin

section \<open>Python values used by AirMonitor.py\<close>

subsection \<open>Floats\<close>

text \<open>
  A Python float is an IEEE 754 double. \<open>Finite sg m e\<close> is the value
  \<open>(-1)^sg * m * 2^e\<close>; the sign is kept apart so that \<open>-0.0\<close> is a value of
  its own. Arithmetic computes the exact result as a fraction of naturals and rounds it
  to the nearest double, ties to even, with the subnormal range and overflow to infinity.
\<close>

datatype pyfloat = Finite bool nat int | Infinity bool | NaN

fun bits :: "nat \<Rightarrow> nat" where
  "bits n = (if n = 0 then 0 else Suc (bits (n div 2)))"

declare bits.simps [simp del]

definition round_half_even :: "nat \<Rightarrow> nat \<Rightarrow> nat" where
  "round_half_even n d =
     (let q = n div d; r = n mod d
      in if 2 * r < d then q
         else if d < 2 * r then q + 1
         else if even q then q else q + 1)"

text \<open>The fraction \<open>n / d\<close> scaled by \<open>2^(-e)\<close>, again as a fraction.\<close>

definition scale2 :: "nat \<Rightarrow> nat \<Rightarrow> int \<Rightarrow> nat \<times> nat" where
  "scale2 n d e = (if 0 \<le> e then (n, d * 2 ^ nat e) else (n * 2 ^ nat (- e), d))"

text \<open>
  \<open>to_double sg n d\<close> is the double nearest to \<open>(-1)^sg * n / d\<close> (\<open>d > 0\<close>):
  53 bits of precision, exponent of the last place at least \<open>-1074\<close>, and infinity
  when the rounded value reaches \<open>2^1024\<close>. The mantissa of the result has 53 bits
  unless the exponent is \<open>-1074\<close>; zero is \<open>Finite sg 0 0\<close>.
\<close>

definition to_double :: "bool \<Rightarrow> nat \<Rightarrow> nat \<Rightarrow> pyfloat" where
  "to_double sg n d =
     (if n = 0 then Finite sg 0 0
      else
        let e0 = int (bits n) - int (bits d) - 53;
            (n0, d0) = scale2 n d e0;
            e1 = (if 2 ^ 53 \<le> n0 div d0 then e0 + 1 else e0);
            e = max e1 (- 1074);
            (n1, d1) = scale2 n d e;
            m = round_half_even n1 d1;
            (m', e') = (if m = 2 ^ 53 then (2 ^ 52, e + 1) else (m, e))
        in if 971 < e' then Infinity sg
           else if m' = 0 then Finite sg 0 0
           else Finite sg m' e')"

definition float_of_int :: "int \<Rightarrow> pyfloat" where
  "float_of_int i = to_double (i < 0) (nat \<bar>i\<bar>) 1"

text \<open>
  True division of two ints with a non-zero divisor (\<open>9/5\<close> in the source): the
  correctly rounded quotient.
\<close>

definition int_truediv :: "int \<Rightarrow> int \<Rightarrow> pyfloat" where
  "int_truediv a b = to_double ((a < 0) \<noteq> (b < 0)) (nat \<bar>a\<bar>) (nat \<bar>b\<bar>)"

text \<open>A signed integer times a power of two, rounded to a double.\<close>

definition double_of_scaled :: "bool \<Rightarrow> int \<Rightarrow> int \<Rightarrow> pyfloat" where
  "double_of_scaled zsg v e =
     (if v = 0 then Finite zsg 0 0
      else if 0 \<le> e then to_double (v < 0) (nat \<bar>v\<bar> * 2 ^ nat e) 1
      else to_double (v < 0) (nat \<bar>v\<bar>) (2 ^ nat (- e)))"

definition signed :: "bool \<Rightarrow> nat \<Rightarrow> int" where
  "signed sg m = (if sg then - int m else int m)"

fun fadd :: "pyfloat \<Rightarrow> pyfloat \<Rightarrow> pyfloat" where
  "fadd NaN _ = NaN"
| "fadd _ NaN = NaN"
| "fadd (Infinity a) (Infinity b) = (if a = b then Infinity a else NaN)"
| "fadd (Infinity a) (Finite _ _ _) = Infinity a"
| "fadd (Finite _ _ _) (Infinity b) = Infinity b"
| "fadd (Finite s1 m1 e1) (Finite s2 m2 e2) =
     (let e = min e1 e2;
          v = signed s1 m1 * 2 ^ nat (e1 - e) + signed s2 m2 * 2 ^ nat (e2 - e)
      in double_of_scaled (s1 \<and> s2) v e)"

fun fmul :: "pyfloat \<Rightarrow> pyfloat \<Rightarrow> pyfloat" where
  "fmul NaN _ = NaN"
| "fmul _ NaN = NaN"
| "fmul (Infinity a) (Infinity b) = Infinity (a \<noteq> b)"
| "fmul (Infinity a) (Finite s m e) = (if m = 0 then NaN else Infinity (a \<noteq> s))"
| "fmul (Finite s m e) (Infinity b) = (if m = 0 then NaN else Infinity (s \<noteq> b))"
| "fmul (Finite s1 m1 e1) (Finite s2 m2 e2) =
     double_of_scaled (s1 \<noteq> s2) (signed (s1 \<noteq> s2) (m1 * m2)) (e1 + e2)"

subsection \<open>Strings of numbers\<close>

text \<open>The character of a decimal digit \<open>n < 10\<close>.\<close>

definition digit_char :: "nat \<Rightarrow> char" where
  "digit_char n = ''0123456789'' ! n"

fun str_nat :: "nat \<Rightarrow> string" where
  "str_nat n = (if n < 10 then [digit_char n] else str_nat (n div 10) @ [digit_char (n mod 10)])"

declare str_nat.simps [simp del]

text \<open>\<open>str(i)\<close> and \<open>"%d" % i\<close> for an int.\<close>

definition str_int :: "int \<Rightarrow> string" where
  "str_int i = (if i < 0 then CHR ''-'' # str_nat (nat (- i)) else str_nat (nat i))"

text \<open>\<open>s.rstrip('0')\<close>.\<close>

definition rstrip0 :: "string \<Rightarrow> string" where
  "rstrip0 s = rev (dropWhile (\<lambda>c. c = CHR ''0'') (rev s))"

subsection \<open>The format specification \<open>.3g\<close>\<close>

text \<open>
  \<open>'{0:.3g}'.format(x)\<close>: the value is rounded correctly (ties to even, on the exact
  value of the double) to three significant digits, giving the digits and the decimal
  exponent \<open>X\<close> of the first one. With \<open>-4 \<le> X < 3\<close> the result is in positional
  notation, otherwise in scientific notation with an exponent of at least two digits.
  Trailing zeros of the fraction are dropped, and the point with them when no digit is left.
\<close>

text \<open>The fraction \<open>n / d\<close> scaled by \<open>10^(-x)\<close>.\<close>

definition scale10 :: "nat \<Rightarrow> nat \<Rightarrow> int \<Rightarrow> nat \<times> nat" where
  "scale10 n d x = (if 0 \<le> x then (n, d * 10 ^ nat x) else (n * 10 ^ nat (- x), d))"

text \<open>
  Three significant digits of the positive fraction \<open>n / d\<close>: a number from 100 to 999
  and the decimal exponent of its first digit.
\<close>

definition sig3 :: "nat \<Rightarrow> nat \<Rightarrow> nat \<times> int" where
  "sig3 n d =
     (let x0 = int (length (str_nat n)) - int (length (str_nat d));
          (n0, d0) = scale10 n d x0;
          x = (if d0 \<le> n0 then x0 else x0 - 1);
          (n1, d1) = scale10 n d (x - 2);
          k = round_half_even n1 d1
      in if k = 1000 then (100, x + 1) else (k, x))"

definition sign_str :: "bool \<Rightarrow> string" where
  "sign_str sg = (if sg then ''-'' else [])"

definition exp_str :: "int \<Rightarrow> string" where
  "exp_str x =
     (let a = nat \<bar>x\<bar>
      in CHR ''e'' # (if x < 0 then CHR ''-'' else CHR ''+'')
           # (if a < 10 then CHR ''0'' # str_nat a else str_nat a))"

definition with_point :: "string \<Rightarrow> string \<Rightarrow> string" where
  "with_point ip fp = (if fp = [] then ip else ip @ CHR ''.'' # fp)"

definition format_3g :: "pyfloat \<Rightarrow> string" where
  "format_3g v =
     (case v of
        NaN \<Rightarrow> ''nan''
      | Infinity sg \<Rightarrow> sign_str sg @ ''inf''
      | Finite sg m e \<Rightarrow>
          if m = 0 then sign_str sg @ ''0''
          else
            let (n, d) = scale2 m 1 (- e);
                (k, x) = sig3 n d;
                ds = rstrip0 (str_nat k)
            in sign_str sg @
                 (if x < - 4 \<or> 3 \<le> x then with_point (take 1 ds) (drop 1 ds) @ exp_str x
                  else if 0 \<le> x then
                    with_point (take (nat x + 1) (ds @ replicate (nat x + 1 - length ds) CHR ''0''))
                      (drop (nat x + 1) ds)
                  else ''0.'' @ replicate (nat (- x - 1)) CHR ''0'' @ ds))"

section \<open>The monitor\<close>

subsection \<open>Exceptions, time, configuration\<close>

datatype exn =
  RequestError | OverflowError | ValueError | KeyError | KeyboardInterrupt | OtherError string

text \<open>
  A \<open>datetime\<close> is a number of microseconds since 0001-01-01 00:00:00, up to the last
  microsecond of the year 9999; a \<open>timedelta\<close> is a number of microseconds whose whole
  days have a magnitude of at most 999999999. Outside these ranges the constructors and the
  addition of Python raise \<open>OverflowError\<close>.
\<close>

definition datetime_max :: int where
  "datetime_max = 3652059 * 86400000000 - 1"

definition valid_datetime :: "int \<Rightarrow> bool" where
  "valid_datetime t = (0 \<le> t \<and> t \<le> datetime_max)"

definition timedelta_minutes :: "int \<Rightarrow> exn + int" where
  "timedelta_minutes m =
     (if - 999999999 \<le> m div 1440 \<and> m div 1440 \<le> 999999999 then Inr (m * 60000000)
      else Inl OverflowError)"

definition datetime_add :: "int \<Rightarrow> int \<Rightarrow> exn + int" where
  "datetime_add t d = (if valid_datetime (t + d) then Inr (t + d) else Inl OverflowError)"

text \<open>
  The options of \<open>AirMonitor.cfg\<close> as the source reads them: \<open>int(...)\<close> and
  \<open>float(...)\<close> of the option's text, and for a switch the test
  \<open>.upper() == 'Y'\<close>. The file is taken to hold the options of the sensor, the
  display, Adafruit IO and the update interval, each with a text that parses. The switch
  \<open>CONSOLE_ENABLED\<close> of the section \<open>LOGGING\<close>, which \<open>__init__\<close> never reads,
  may be missing: then \<open>console_enabled\<close> is \<open>None\<close>, and reading it raises
  \<open>KeyError\<close>.
\<close>

record config =
  update_interval :: int
  sensor_type :: string
  temperature_calibration :: pyfloat
  humidity_calibration :: pyfloat
  display_enabled :: bool
  adafruit_enabled :: bool
  upload_interval :: int
  console_enabled :: "bool option"

subsection \<open>Collaborators\<close>

text \<open>What \<open>dht_sensor.read()\<close> returns; \<open>valid\<close> is its \<open>is_valid()\<close>.\<close>

record dht_result =
  valid :: bool
  error_code :: int
  temperature :: pyfloat
  dht_humidity :: pyfloat

text \<open>Calls made on the console, the display, the Adafruit IO client and the GPIO library.\<close>

datatype event =
    Print string
  | LcdClear
  | LcdDisplayString string nat
  | Feeds string
  | CreateFeed string
  | SendData string string
  | GpioCleanup

fun is_send :: "event \<Rightarrow> bool" where
  "is_send (SendData _ _) = True"
| "is_send _ = False"

text \<open>
  The world outside the program, of any type \<open>'w\<close>, with the answers of the
  collaborators: the clock, the sensor, the console, the Adafruit IO client (a feed is
  known by its key) and \<open>time.sleep\<close>. A call of \<open>print\<close>, of the client or of
  \<open>time.sleep\<close> may raise; the clock, the sensor, the display and \<open>GPIO.cleanup\<close>
  are taken to return.
\<close>

record 'w env =
  now :: "'w \<Rightarrow> int \<times> 'w"
  str_datetime :: "int \<Rightarrow> string"
  dht_read :: "'w \<Rightarrow> dht_result \<times> 'w"
  console_print :: "string \<Rightarrow> 'w \<Rightarrow> exn option \<times> 'w"
  aio_feeds :: "string \<Rightarrow> 'w \<Rightarrow> (exn + string) \<times> 'w"
  aio_create_feed :: "string \<Rightarrow> 'w \<Rightarrow> (exn + string) \<times> 'w"
  aio_send_data :: "string \<Rightarrow> string \<Rightarrow> 'w \<Rightarrow> exn option \<times> 'w"
  time_sleep :: "int \<Rightarrow> 'w \<Rightarrow> exn option \<times> 'w"

subsection \<open>class AirMonitor\<close>

text \<open>
  The attributes of the object, the world and the calls made so far. A method returns the
  state it leaves behind, with the exception it raised if any.
\<close>

record 'w monitor =
  temperature_celsius :: "string option"
  temperature_fahrenheit :: "string option"
  humidity :: "string option"
  adafruit_last_upload :: "int option"
  config :: config
  world :: 'w
  trace :: "event list"

definition emit :: "event \<Rightarrow> 'w monitor \<Rightarrow> 'w monitor" where
  "emit ev s = s\<lparr>trace := trace s @ [ev]\<rparr>"

text \<open>
  A step that may raise, followed by another: the second runs on the state the first left,
  unless the first raised.
\<close>

definition andthen ::
  "exn option \<times> 'w monitor \<Rightarrow> ('w monitor \<Rightarrow> exn option \<times> 'w monitor)
     \<Rightarrow> exn option \<times> 'w monitor" where
  "andthen p f = (case p of (Some e, s) \<Rightarrow> (Some e, s) | (None, s) \<Rightarrow> f s)"

text \<open>
  \<open>Log\<close> reads the switch in the configuration, which raises \<open>KeyError\<close> when the
  option is missing, and prints the message when the switch is on; an error of
  \<open>print\<close> leaves \<open>Log\<close>.
\<close>

definition Log :: "'w env \<Rightarrow> string \<Rightarrow> 'w monitor \<Rightarrow> exn option \<times> 'w monitor" where
  "Log E message s =
     (case console_enabled (config s) of
        None \<Rightarrow> (Some KeyError, s)
      | Some enabled \<Rightarrow>
          if enabled then
            (let (r, w) = console_print E message (world s)
             in (r, emit (Print message) (s\<lparr>world := w\<rparr>)))
          else (None, s))"

definition SetupSesnors :: "config \<Rightarrow> exn option" where
  "SetupSesnors cfg =
     (if sensor_type cfg = ''DHT11'' then None else Some (OtherError ''Invalid sensor defined''))"

text \<open>
  \<open>__init__\<close>: the reading is empty, the sensor is set up, and no upload has been made.
  (The source sets \<open>adafruit_last_upload\<close> only when Adafruit IO is enabled and reads
  it only then.) The set-up of the GPIO library and of the display makes no call that the
  trace records.
\<close>

definition AirMonitor_init :: "config \<Rightarrow> 'w \<Rightarrow> exn + 'w monitor" where
  "AirMonitor_init cfg w =
     (case SetupSesnors cfg of
        Some e \<Rightarrow> Inl e
      | None \<Rightarrow>
          Inr \<lparr>temperature_celsius = None, temperature_fahrenheit = None, humidity = None,
               adafruit_last_upload = None, config = cfg, world = w, trace = []\<rparr>)"

definition FormatResult :: "pyfloat \<Rightarrow> string" where
  "FormatResult unformatted_value =
     (let value = format_3g unformatted_value
      in if CHR ''.'' \<in> set value then rstrip0 value else value)"

definition ctof :: "pyfloat \<Rightarrow> pyfloat" where
  "ctof celsius_temperature =
     fadd (fmul celsius_temperature (int_truediv 9 5)) (float_of_int 32)"

definition GetValueDict :: "'w monitor \<Rightarrow> (string \<times> string option) list" where
  "GetValueDict s =
     [(''fahrenheit'', temperature_fahrenheit s),
      (''celsius'', temperature_celsius s),
      (''humidity'', humidity s)]"

text \<open>Truth value of an attribute that is \<open>None\<close> or a string.\<close>

definition truthy :: "string option \<Rightarrow> bool" where
  "truthy v = (case v of None \<Rightarrow> False | Some x \<Rightarrow> x \<noteq> [])"

definition send_data :: "'w env \<Rightarrow> string \<Rightarrow> string \<Rightarrow> 'w monitor \<Rightarrow> exn option \<times> 'w monitor" where
  "send_data E feed_key v s =
     (let (r, w) = aio_send_data E feed_key v (world s)
      in (r, emit (SendData feed_key v) (s\<lparr>world := w\<rparr>)))"

text \<open>The body of the loop \<open>for key in values\<close>.\<close>

definition upload_key :: "'w env \<Rightarrow> string \<Rightarrow> string option \<Rightarrow> 'w monitor \<Rightarrow> exn option \<times> 'w monitor" where
  "upload_key E key v s =
     (if truthy v then
        (let (r, w1) = aio_feeds E key (world s);
             s1 = emit (Feeds key) (s\<lparr>world := w1\<rparr>)
         in case r of
              Inr feed \<Rightarrow> send_data E feed (the v) s1
            | Inl e \<Rightarrow>
                if e = RequestError then
                  (let (r2, w2) = aio_create_feed E key (world s1);
                       s2 = emit (CreateFeed key) (s1\<lparr>world := w2\<rparr>)
                   in case r2 of
                        Inr feed \<Rightarrow> send_data E feed (the v) s2
                      | Inl e2 \<Rightarrow> (Some e2, s2))
                else (Some e, s1))
      else (None, s))"

fun upload_values :: "'w env \<Rightarrow> (string \<times> string option) list \<Rightarrow> 'w monitor \<Rightarrow> exn option \<times> 'w monitor" where
  "upload_values E [] s = (None, s)"
| "upload_values E ((key, v) # rest) s =
     (case upload_key E key v s of
        (Some e, s') \<Rightarrow> (Some e, s')
      | (None, s') \<Rightarrow> upload_values E rest s')"

text \<open>
  The test \<open>not last or now >= last + timedelta(minutes=interval)\<close> on given values:
  \<open>last\<close> is \<open>None\<close> or a datetime, which is always true as a condition.
\<close>

definition may_upload :: "int option \<Rightarrow> int \<Rightarrow> int \<Rightarrow> exn + bool" where
  "may_upload last_upload interval t =
     (case last_upload of
        None \<Rightarrow> Inr True
      | Some l \<Rightarrow>
          (case timedelta_minutes interval of
             Inl e \<Rightarrow> Inl e
           | Inr d \<Rightarrow>
               (case datetime_add l d of
                  Inl e \<Rightarrow> Inl e
                | Inr due \<Rightarrow> Inr (due \<le> t))))"

text \<open>The same test in the method: the clock is read only when \<open>last\<close> is set.\<close>

definition upload_gate :: "'w env \<Rightarrow> 'w monitor \<Rightarrow> (exn + bool) \<times> 'w monitor" where
  "upload_gate E s =
     (case adafruit_last_upload s of
        None \<Rightarrow> (Inr True, s)
      | Some l \<Rightarrow>
          (let (t, w) = now E (world s)
           in (may_upload (Some l) (upload_interval (config s)) t, s\<lparr>world := w\<rparr>)))"

definition record_attempt :: "'w env \<Rightarrow> 'w monitor \<Rightarrow> 'w monitor" where
  "record_attempt E s =
     (let (t, w) = now E (world s) in s\<lparr>adafruit_last_upload := Some t, world := w\<rparr>)"

definition AdafruitUpload :: "'w env \<Rightarrow> 'w monitor \<Rightarrow> exn option \<times> 'w monitor" where
  "AdafruitUpload E s =
     (if adafruit_enabled (config s) then
        (case upload_gate E s of
           (Inl e, s1) \<Rightarrow> (Some e, s1)
         | (Inr False, s1) \<Rightarrow> (None, s1)
         | (Inr True, s1) \<Rightarrow>
             (case upload_values E (GetValueDict s1) s1 of
                (Some e, s2) \<Rightarrow> (Some e, s2)
              | (None, s2) \<Rightarrow> (None, record_attempt E s2)))
      else (None, s))"

text \<open>\<open>GPIO.cleanup()\<close> is reached when the call of \<open>Log\<close> returns.\<close>

definition Cleanup :: "'w env \<Rightarrow> 'w monitor \<Rightarrow> exn option \<times> 'w monitor" where
  "Cleanup E s =
     andthen (Log E ''Shutting Down'' s) (\<lambda>s1. (None, emit GpioCleanup s1))"

definition DHT11Read :: "'w env \<Rightarrow> 'w monitor \<Rightarrow> exn option \<times> 'w monitor" where
  "DHT11Read E s =
     (let (result, w) = dht_read E (world s);
          s1 = s\<lparr>world := w\<rparr>
      in if valid result then
           (let corrected_temperature =
                  fadd (temperature result) (temperature_calibration (config s1));
                corrected_humidity =
                  fadd (dht_humidity result) (humidity_calibration (config s1))
            in (None,
                s1\<lparr>temperature_celsius := Some (FormatResult corrected_temperature),
                   temperature_fahrenheit := Some (FormatResult (ctof corrected_temperature)),
                   humidity := Some (FormatResult corrected_humidity)\<rparr>))
         else Log E (''DHT11 Error: '' @ str_int (error_code result)) s1)"

text \<open>The sensor object is always true as a condition.\<close>

definition GetEnvironmentMetrics ::
  "'w env \<Rightarrow> 'w monitor \<Rightarrow> exn option \<times> 'w monitor" where
  "GetEnvironmentMetrics E s = DHT11Read E s"

text \<open>An attribute inside an f-string: \<open>None\<close> is written \<open>None\<close>.\<close>

definition str_attr :: "string option \<Rightarrow> string" where
  "str_attr v = (case v of None \<Rightarrow> ''None'' | Some x \<Rightarrow> x)"

definition LogResults :: "'w env \<Rightarrow> 'w monitor \<Rightarrow> exn option \<times> 'w monitor" where
  "LogResults E s =
     (let (t, w) = now E (world s)
      in andthen (Log E (str_datetime E t) (s\<lparr>world := w\<rparr>)) (\<lambda>s1.
         andthen (Log E (''celsius: '' @ str_attr (temperature_celsius s1) @ ''C'') s1) (\<lambda>s2.
         andthen (Log E (''Fahrenheit: '' @ str_attr (temperature_fahrenheit s2) @ ''F'') s2) (\<lambda>s3.
         Log E (''Humidity: '' @ str_attr (humidity s3) @ ''%'') s3))))"

definition UpdateLCDDisplay :: "'w env \<Rightarrow> 'w monitor \<Rightarrow> 'w monitor" where
  "UpdateLCDDisplay E s =
     (let s1 = emit LcdClear s;
          (t, w) = now E (world s1);
          s2 = emit (LcdDisplayString (str_datetime E t) 1) (s1\<lparr>world := w\<rparr>)
      in emit (LcdDisplayString
                (''T|'' @ str_attr (temperature_fahrenheit s2) @ ''F H|''
                   @ str_attr (humidity s2) @ ''%'') 2) s2)"

text \<open>\<open>time.sleep(n)\<close> refuses a negative length.\<close>

definition sleep :: "'w env \<Rightarrow> int \<Rightarrow> 'w monitor \<Rightarrow> exn option \<times> 'w monitor" where
  "sleep E n s =
     (if n < 0 then (Some ValueError, s)
      else (let (r, w) = time_sleep E n (world s) in (r, s\<lparr>world := w\<rparr>)))"

text \<open>One pass through the body of \<open>while True\<close> in \<open>Run\<close>.\<close>

definition Run_body :: "'w env \<Rightarrow> 'w monitor \<Rightarrow> exn option \<times> 'w monitor" where
  "Run_body E s =
     andthen (GetEnvironmentMetrics E s) (\<lambda>s1.
     andthen (LogResults E s1) (\<lambda>s2.
     andthen (AdafruitUpload E
                (if display_enabled (config s2) then UpdateLCDDisplay E s2 else s2)) (\<lambda>s4.
     sleep E (update_interval (config s4)) s4)))"

text \<open>
  \<open>Run\<close> leaves its loop only by an exception; \<open>None\<close> is the run that never ends.
\<close>

partial_function (option) Run :: "'w env \<Rightarrow> 'w monitor \<Rightarrow> (exn \<times> 'w monitor) option" where
  "Run E s =
     (case Run_body E s of
        (Some e, s') \<Rightarrow> Some (e, s')
      | (None, s') \<Rightarrow> Run E s')"

text \<open>
  The main program from the \<open>try\<close> on: the exception that leaves the process and the
  state after the \<open>finally\<close> clause. The clause runs \<open>Cleanup\<close> on the state
  \<open>Run\<close> left; the exception of \<open>Run\<close> goes on when \<open>Cleanup\<close> returns, and
  an exception of \<open>Cleanup\<close> takes its place.
\<close>

definition main_try :: "'w env \<Rightarrow> 'w monitor \<Rightarrow> (exn \<times> 'w monitor) option" where
  "main_try E monitor =
     (case Run E monitor of
        None \<Rightarrow> None
      | Some (e, s) \<Rightarrow>
          (case Cleanup E s of
             (None, s') \<Rightarrow> Some (e, s')
           | (Some e', s') \<Rightarrow> Some (e', s')))"

definition main :: "'w env \<Rightarrow> config \<Rightarrow> 'w \<Rightarrow> (exn \<times> event list) option" where
  "main E cfg w =
     (case AirMonitor_init cfg w of
        Inl e \<Rightarrow> Some (e, [])
      | Inr monitor \<Rightarrow> map_option (\<lambda>(e, s). (e, trace s)) (main_try E monitor))"

subsection \<open>The reading held by the monitor\<close>

text \<open>The three values of a reading are all absent or all present.\<close>

definition reading_atomic :: "'w monitor \<Rightarrow> bool" where
  "reading_atomic s =
     ((temperature_celsius s = None \<and> temperature_fahrenheit s = None \<and> humidity s = None)
      \<or> (temperature_celsius s \<noteq> None \<and> temperature_fahrenheit s \<noteq> None
          \<and> humidity s \<noteq> None))"

text \<open>
  What every step of the main loop keeps: the configuration, the number of calls of
  \<open>GPIO.cleanup\<close>, and a reading that is all or nothing.
\<close>

definition kept :: "'w monitor \<Rightarrow> 'w monitor \<Rightarrow> bool" where
  "kept s s' =
     (config s' = config s
      \<and> count_list (trace s') GpioCleanup = count_list (trace s) GpioCleanup
      \<and> (reading_atomic s \<longrightarrow> reading_atomic s'))"

subsection \<open>A simulated world\<close>

text \<open>
  A small world for worked examples: a clock that advances by one microsecond at each
  reading, a queue of sensor results, a feed service that knows some feeds by name, refuses
  to create some and fails to store data in some, and a user who interrupts the program
  after a number of sleeps. A feed's key is its name.
\<close>

record sim =
  clock :: int
  readings :: "dht_result list"
  known_feeds :: "string list"
  refused_feeds :: "string list"
  broken_feeds :: "string list"
  naps :: nat

definition no_reading :: dht_result where
  "no_reading = \<lparr>valid = False, error_code = 1,
     temperature = Finite False 0 0, dht_humidity = Finite False 0 0\<rparr>"

definition sim_env :: "sim env" where
  "sim_env =
     \<lparr>now = (\<lambda>w. (clock w, w\<lparr>clock := clock w + 1\<rparr>)),
      str_datetime = str_int,
      dht_read = (\<lambda>w. case readings w of
                          [] \<Rightarrow> (no_reading, w)
                        | r # rs \<Rightarrow> (r, w\<lparr>readings := rs\<rparr>)),
      console_print = (\<lambda>message w. (None, w)),
      aio_feeds = (\<lambda>name w.
         (if name \<in> set (known_feeds w) then Inr name else Inl RequestError, w)),
      aio_create_feed = (\<lambda>name w.
         if name \<in> set (refused_feeds w) then (Inl (OtherError ''create refused''), w)
         else (Inr name, w\<lparr>known_feeds := name # known_feeds w\<rparr>)),
      aio_send_data = (\<lambda>feed_key v w.
         (if feed_key \<in> set (broken_feeds w) then Some (OtherError ''send failed'') else None, w)),
      time_sleep = (\<lambda>n w.
         if naps w = 0 then (Some KeyboardInterrupt, w)
         else (None, w\<lparr>naps := naps w - 1, clock := clock w + n * 1000000\<rparr>))\<rparr>"

definition sim_config :: config where
  "sim_config =
     \<lparr>update_interval = 10, sensor_type = ''DHT11'',
      temperature_calibration = int_truediv 1 2, humidity_calibration = float_of_int (- 1),
      display_enabled = True, adafruit_enabled = True, upload_interval = 5,
      console_enabled = Some True\<rparr>"

text \<open>The raw reading \<open>(temperature=22.0, humidity=50.0)\<close>.\<close>

definition sim_reading :: dht_result where
  "sim_reading = \<lparr>valid = True, error_code = 0,
     temperature = float_of_int 22, dht_humidity = float_of_int 50\<rparr>"

text \<open>The same configuration file without the section \<open>LOGGING\<close>.\<close>

definition sim_config_no_logging :: config where
  "sim_config_no_logging = sim_config\<lparr>console_enabled := None\<rparr>"

text \<open>A monitor that holds a reading, in a world with the given feeds.\<close>

definition sim_monitor :: "string list \<Rightarrow> string list \<Rightarrow> string list \<Rightarrow> sim monitor" where
  "sim_monitor known refused broken =
     \<lparr>temperature_celsius = Some ''22.5'', temperature_fahrenheit = Some ''72.5'',
      humidity = Some ''49'', adafruit_last_upload = None, config = sim_config,
      world = \<lparr>clock = 63000000000000000, readings = [], known_feeds = known,
               refused_feeds = refused, broken_feeds = broken, naps = 0\<rparr>,
      trace = []\<rparr>"

section \<open>The upload throttle\<close>

lemma timedelta_minutes_Inr:
  "timedelta_minutes m = Inr d \<Longrightarrow> d = m * 60000000"
  by (auto simp: timedelta_minutes_def split: if_splits)

lemma may_upload_True_D:
  "may_upload (Some l) iv t = Inr True \<Longrightarrow> l + iv * 60000000 \<le> t"
  by (auto simp: may_upload_def datetime_add_def dest!: timedelta_minutes_Inr
      split: sum.splits if_splits)

lemma timedelta_minutes_small:
  assumes "- datetime_max \<le> iv * 60000000" "iv * 60000000 \<le> datetime_max"
  shows "timedelta_minutes iv = Inr (iv * 60000000)"
proof -
  have "iv \<le> datetime_max div 60000000" using assms(2) by linarith
  then have "iv div 1440 \<le> 999999999" by (simp add: datetime_max_def)
  moreover have "- (datetime_max div 60000000) - 1 \<le> iv" using assms(1) by linarith
  then have "- 999999999 \<le> iv div 1440" by (simp add: datetime_max_def)
  ultimately show ?thesis by (simp add: timedelta_minutes_def)
qed

text \<open>The due time \<open>l + iv\<close> of two datetimes of the calendar is computed without overflow.\<close>

lemma due_time:
  assumes "valid_datetime l" "valid_datetime (l + iv * 60000000)"
  shows "timedelta_minutes iv = Inr (iv * 60000000)"
    and "datetime_add l (iv * 60000000) = Inr (l + iv * 60000000)"
proof -
  have "- datetime_max \<le> iv * 60000000" "iv * 60000000 \<le> datetime_max"
    using assms by (simp_all add: valid_datetime_def)
  then show "timedelta_minutes iv = Inr (iv * 60000000)"
    by (rule timedelta_minutes_small)
  show "datetime_add l (iv * 60000000) = Inr (l + iv * 60000000)"
    using assms(2) by (simp add: datetime_add_def)
qed

lemma may_upload_due:
  assumes "valid_datetime t" "valid_datetime l" "0 \<le> l + iv * 60000000"
    and "l + iv * 60000000 \<le> t"
  shows "may_upload (Some l) iv t = Inr True"
proof -
  have "valid_datetime (l + iv * 60000000)"
    using assms by (simp add: valid_datetime_def)
  from due_time [OF assms(2) this] assms(4) show ?thesis
    by (simp add: may_upload_def)
qed

lemma may_upload_iff:
  assumes "valid_datetime t"
    and "\<forall>l. lu = Some l \<longrightarrow> valid_datetime l \<and> 0 \<le> l + iv * 60000000"
  shows "may_upload lu iv t = Inr True \<longleftrightarrow>
         lu = None \<or> (\<exists>l. lu = Some l \<and> l + iv * 60000000 \<le> t)"
proof (cases lu)
  case None
  then show ?thesis by (simp add: may_upload_def)
next
  case (Some l)
  with assms show ?thesis
    by (auto dest: may_upload_True_D intro: may_upload_due)
qed

lemma may_upload_five_minutes:
  assumes "valid_datetime T0" "valid_datetime (T0 + 10 * 60000000)"
  shows "may_upload (Some T0) 5 (T0 + 4 * 60000000) = Inr False"
    and "may_upload (Some T0) 5 (T0 + 5 * 60000000) = Inr True"
    and "may_upload (Some (T0 + 5 * 60000000)) 5 (T0 + 6 * 60000000) = Inr False"
  using assms
  by (simp_all add: may_upload_def timedelta_minutes_def datetime_add_def valid_datetime_def)

lemma upload_gate_result:
  "fst (upload_gate E s) =
     (case adafruit_last_upload s of
        None \<Rightarrow> Inr True
      | Some l \<Rightarrow> may_upload (Some l) (upload_interval (config s)) (fst (now E (world s))))"
  by (simp add: upload_gate_def split: option.splits prod.splits)

lemma record_attempt_last_upload:
  "adafruit_last_upload (record_attempt E s) = Some (fst (now E (world s)))"
  by (simp add: record_attempt_def split: prod.splits)

text \<open>
  C5. The test of \<open>AdafruitUpload\<close> lets an upload through only when no upload is
  recorded or the clock has reached the recorded time plus the interval; for datetimes
  of the calendar, the recorded time plus the interval not lying before the calendar's
  first day (as with every interval that is not negative), it lets it through exactly then.
  The method applies the test to the clock's reading. With an interval of five minutes
  and a last upload at \<open>T0\<close>, the test fails four minutes later and holds five minutes
  later; once that attempt is recorded it fails at six minutes.
\<close>

theorem upload_permitted_iff:
  "(may_upload lu iv t = Inr True \<longrightarrow>
      lu = None \<or> (\<exists>l. lu = Some l \<and> l + iv * 60000000 \<le> t))
   \<and> (valid_datetime t
        \<and> (\<forall>l. lu = Some l \<longrightarrow> valid_datetime l \<and> 0 \<le> l + iv * 60000000) \<longrightarrow>
        (may_upload lu iv t = Inr True \<longleftrightarrow>
           lu = None \<or> (\<exists>l. lu = Some l \<and> l + iv * 60000000 \<le> t)))
   \<and> fst (upload_gate E s) =
        (case adafruit_last_upload s of
           None \<Rightarrow> Inr True
         | Some l \<Rightarrow> may_upload (Some l) (upload_interval (config s)) (fst (now E (world s))))
   \<and> (valid_datetime T0 \<and> valid_datetime (T0 + 10 * 60000000) \<longrightarrow>
        may_upload (Some T0) 5 (T0 + 4 * 60000000) = Inr False
        \<and> may_upload (Some T0) 5 (T0 + 5 * 60000000) = Inr True
        \<and> (fst (now E (world s)) = T0 + 5 * 60000000 \<longrightarrow>
             may_upload (adafruit_last_upload (record_attempt E s)) 5 (T0 + 6 * 60000000)
               = Inr False))"
proof (intro conjI impI)
  assume "may_upload lu iv t = Inr True"
  then show "lu = None \<or> (\<exists>l. lu = Some l \<and> l + iv * 60000000 \<le> t)"
    by (cases lu) (auto dest: may_upload_True_D)
next
  assume "valid_datetime t
        \<and> (\<forall>l. lu = Some l \<longrightarrow> valid_datetime l \<and> 0 \<le> l + iv * 60000000)"
  then show "may_upload lu iv t = Inr True \<longleftrightarrow>
      lu = None \<or> (\<exists>l. lu = Some l \<and> l + iv * 60000000 \<le> t)"
    using may_upload_iff by blast
next
  show "fst (upload_gate E s) =
        (case adafruit_last_upload s of
           None \<Rightarrow> Inr True
         | Some l \<Rightarrow> may_upload (Some l) (upload_interval (config s)) (fst (now E (world s))))"
    by (rule upload_gate_result)
next
  assume v: "valid_datetime T0 \<and> valid_datetime (T0 + 10 * 60000000)"
  from v show "may_upload (Some T0) 5 (T0 + 4 * 60000000) = Inr False"
    using may_upload_five_minutes(1) [of T0] by simp
  from v show "may_upload (Some T0) 5 (T0 + 5 * 60000000) = Inr True"
    using may_upload_five_minutes(2) [of T0] by simp
  assume "fst (now E (world s)) = T0 + 5 * 60000000"
  with v show
    "may_upload (adafruit_last_upload (record_attempt E s)) 5 (T0 + 6 * 60000000) = Inr False"
    using may_upload_five_minutes(3) [of T0] by (simp add: record_attempt_last_upload)
qed

theorem upload_permitted_iff_witness:
  "valid_datetime 63000000300000000 \<and> (0::int) \<le> 63000000000000000 + 5 * 60000000
   \<and> valid_datetime 63000000000000000 \<and> valid_datetime (63000000000000000 + 10 * 60000000)
   \<and> fst (now sim_env (world ((sim_monitor [] [] [])))) + 300000000 = 63000000300000000
   \<and> may_upload (Some 63000000000000000) 5 63000000300000000 = Inr True
   \<and> may_upload (Some 63000000000000000) 5 (63000000000000000 + 4 * 60000000) = Inr False"
  using upload_permitted_iff [of "Some 63000000000000000" 5 63000000300000000
      sim_env "sim_monitor [] [] []" 63000000000000000]
  by (simp add: valid_datetime_def datetime_max_def sim_env_def sim_monitor_def)

section \<open>What the methods leave unchanged\<close>

lemma emit_simps [simp]:
  "temperature_celsius (emit ev s) = temperature_celsius s"
  "temperature_fahrenheit (emit ev s) = temperature_fahrenheit s"
  "humidity (emit ev s) = humidity s"
  "adafruit_last_upload (emit ev s) = adafruit_last_upload s"
  "config (emit ev s) = config s"
  "world (emit ev s) = world s"
  "trace (emit ev s) = trace s @ [ev]"
  by (simp_all add: emit_def)

lemma andthen_cases:
  assumes "andthen p f = (r, s')"
  obtains e where "p = (Some e, s')" and "r = Some e"
    | s1 where "p = (None, s1)" and "f s1 = (r, s')"
  using assms by (auto simp: andthen_def split: prod.splits option.splits)

lemma Log_frame:
  assumes "Log E m s = (r, s')"
  shows "temperature_celsius s' = temperature_celsius s"
    and "temperature_fahrenheit s' = temperature_fahrenheit s"
    and "humidity s' = humidity s"
    and "adafruit_last_upload s' = adafruit_last_upload s"
    and "config s' = config s"
    and "trace s' = trace s @ (if console_enabled (config s) = Some True then [Print m] else [])"
  using assms by (auto simp: Log_def split: option.splits if_splits prod.splits)

lemma send_data_frame:
  assumes "send_data E k v s = (r, s')"
  shows "temperature_celsius s' = temperature_celsius s"
    and "temperature_fahrenheit s' = temperature_fahrenheit s"
    and "humidity s' = humidity s"
    and "adafruit_last_upload s' = adafruit_last_upload s"
    and "config s' = config s"
    and "trace s' = trace s @ [SendData k v]"
  using assms by (auto simp: send_data_def split: prod.splits)

lemma upload_key_frame:
  assumes "upload_key E key v s = (r, s')"
  shows "temperature_celsius s' = temperature_celsius s"
    and "temperature_fahrenheit s' = temperature_fahrenheit s"
    and "humidity s' = humidity s"
    and "adafruit_last_upload s' = adafruit_last_upload s"
    and "config s' = config s"
  using assms
  by (auto simp: upload_key_def Let_def dest: send_data_frame
      split: if_splits prod.splits sum.splits)


lemma upload_values_frame:
  assumes "upload_values E kvs s = (r, s')"
  shows "temperature_celsius s' = temperature_celsius s
       \<and> temperature_fahrenheit s' = temperature_fahrenheit s
       \<and> humidity s' = humidity s
       \<and> adafruit_last_upload s' = adafruit_last_upload s
       \<and> config s' = config s"
  using assms
proof (induction kvs arbitrary: s)
  case Nil
  then show ?case by simp
next
  case (Cons kv kvs)
  obtain key v where kv: "kv = (key, v)" by (cases kv)
  obtain r1 s1 where u: "upload_key E key v s = (r1, s1)" by (cases "upload_key E key v s")
  show ?case
  proof (cases r1)
    case None
    with Cons.prems kv u have "upload_values E kvs s1 = (r, s')" by simp
    from Cons.IH [OF this] upload_key_frame [OF u] show ?thesis by simp
  next
    case (Some e)
    with Cons.prems kv u have "s' = s1" by simp
    with upload_key_frame [OF u] show ?thesis by simp
  qed
qed

lemma upload_values_no_value:
  "\<forall>kv \<in> set kvs. \<not> truthy (snd kv) \<Longrightarrow> upload_values E kvs s = (None, s)"
  by (induction kvs) (auto simp: upload_key_def)

lemma upload_gate_frame:
  assumes "upload_gate E s = (r, s')"
  shows "temperature_celsius s' = temperature_celsius s"
    and "temperature_fahrenheit s' = temperature_fahrenheit s"
    and "humidity s' = humidity s"
    and "adafruit_last_upload s' = adafruit_last_upload s"
    and "config s' = config s"
    and "trace s' = trace s"
  using assms by (auto simp: upload_gate_def split: option.splits prod.splits)

lemma record_attempt_frame [simp]:
  "temperature_celsius (record_attempt E s) = temperature_celsius s"
  "temperature_fahrenheit (record_attempt E s) = temperature_fahrenheit s"
  "humidity (record_attempt E s) = humidity s"
  "config (record_attempt E s) = config s"
  "trace (record_attempt E s) = trace s"
  by (simp_all add: record_attempt_def split: prod.splits)

lemma AdafruitUpload_frame:
  assumes "AdafruitUpload E s = (r, s')"
  shows "temperature_celsius s' = temperature_celsius s"
    and "temperature_fahrenheit s' = temperature_fahrenheit s"
    and "humidity s' = humidity s"
    and "config s' = config s"
proof -
  have "temperature_celsius s' = temperature_celsius s
       \<and> temperature_fahrenheit s' = temperature_fahrenheit s
       \<and> humidity s' = humidity s \<and> config s' = config s"
  proof (cases "adafruit_enabled (config s)")
    case False
    with assms show ?thesis by (simp add: AdafruitUpload_def)
  next
    case True
    obtain g s1 where g: "upload_gate E s = (g, s1)" by (cases "upload_gate E s")
    note f1 = upload_gate_frame [OF g]
    show ?thesis
    proof (cases g)
      case (Inl e)
      with assms True g f1 show ?thesis by (simp add: AdafruitUpload_def)
    next
      case (Inr b)
      show ?thesis
      proof (cases b)
        case False
        with assms True g Inr f1 show ?thesis by (simp add: AdafruitUpload_def)
      next
        case b: True
        obtain r2 s2 where u: "upload_values E (GetValueDict s1) s1 = (r2, s2)"
          by (cases "upload_values E (GetValueDict s1) s1")
        note f2 = upload_values_frame [OF u]
        from assms True g Inr b u f1 f2 show ?thesis
          by (cases r2) (auto simp: AdafruitUpload_def)
      qed
    qed
  qed
  then show "temperature_celsius s' = temperature_celsius s"
    and "temperature_fahrenheit s' = temperature_fahrenheit s"
    and "humidity s' = humidity s"
    and "config s' = config s"
    by simp_all
qed

lemma UpdateLCDDisplay_frame [simp]:
  "temperature_celsius (UpdateLCDDisplay E s) = temperature_celsius s"
  "temperature_fahrenheit (UpdateLCDDisplay E s) = temperature_fahrenheit s"
  "humidity (UpdateLCDDisplay E s) = humidity s"
  "adafruit_last_upload (UpdateLCDDisplay E s) = adafruit_last_upload s"
  "config (UpdateLCDDisplay E s) = config s"
  by (simp_all add: UpdateLCDDisplay_def Let_def split: prod.splits)

lemma sleep_frame:
  assumes "sleep E n s = (r, s')"
  shows "temperature_celsius s' = temperature_celsius s"
    and "temperature_fahrenheit s' = temperature_fahrenheit s"
    and "humidity s' = humidity s"
    and "adafruit_last_upload s' = adafruit_last_upload s"
    and "config s' = config s"
    and "trace s' = trace s"
  using assms by (auto simp: sleep_def split: if_splits prod.splits)

section \<open>What a pass of the loop keeps\<close>

lemma kept_refl [simp]: "kept s s"
  by (simp add: kept_def)

lemma kept_trans: "kept s s1 \<Longrightarrow> kept s1 s' \<Longrightarrow> kept s s'"
  by (simp add: kept_def)

lemma andthen_kept:
  assumes "andthen p f = (r, s')"
    and "kept s (snd p)"
    and "\<And>s1 r s'. f s1 = (r, s') \<Longrightarrow> kept s1 s'"
  shows "kept s s'"
  using assms(1)
proof (cases rule: andthen_cases)
  case (1 e)
  with assms(2) show ?thesis by simp
next
  case (2 s1)
  from assms(2) 2(1) have "kept s s1" by simp
  moreover from assms(3) [OF 2(2)] have "kept s1 s'" .
  ultimately show ?thesis by (rule kept_trans)
qed

lemma Log_kept: "Log E m s = (r, s') \<Longrightarrow> kept s s'"
  by (auto simp: kept_def reading_atomic_def dest: Log_frame)

lemma LogResults_kept:
  assumes "LogResults E s = (r, s')"
  shows "kept s s'"
proof -
  obtain t w where n: "now E (world s) = (t, w)" by (cases "now E (world s)")
  have k0: "kept s (s\<lparr>world := w\<rparr>)" by (simp add: kept_def reading_atomic_def)
  from assms n have
    "andthen (Log E (str_datetime E t) (s\<lparr>world := w\<rparr>)) (\<lambda>s1.
       andthen (Log E (''celsius: '' @ str_attr (temperature_celsius s1) @ ''C'') s1) (\<lambda>s2.
       andthen (Log E (''Fahrenheit: '' @ str_attr (temperature_fahrenheit s2) @ ''F'') s2) (\<lambda>s3.
       Log E (''Humidity: '' @ str_attr (humidity s3) @ ''%'') s3))) = (r, s')"
    by (simp add: LogResults_def)
  then have "kept (s\<lparr>world := w\<rparr>) s'"
  proof (rule andthen_kept)
    show "kept (s\<lparr>world := w\<rparr>) (snd (Log E (str_datetime E t) (s\<lparr>world := w\<rparr>)))"
      by (rule Log_kept) (rule prod.collapse [symmetric])
  next
    fix s1 r1 s1'
    assume "andthen (Log E (''celsius: '' @ str_attr (temperature_celsius s1) @ ''C'') s1) (\<lambda>s2.
       andthen (Log E (''Fahrenheit: '' @ str_attr (temperature_fahrenheit s2) @ ''F'') s2) (\<lambda>s3.
       Log E (''Humidity: '' @ str_attr (humidity s3) @ ''%'') s3)) = (r1, s1')"
    then show "kept s1 s1'"
    proof (rule andthen_kept)
      show "kept s1 (snd (Log E (''celsius: '' @ str_attr (temperature_celsius s1) @ ''C'') s1))"
        by (rule Log_kept) (rule prod.collapse [symmetric])
    next
      fix s2 r2 s2'
      assume "andthen (Log E (''Fahrenheit: '' @ str_attr (temperature_fahrenheit s2) @ ''F'') s2)
         (\<lambda>s3. Log E (''Humidity: '' @ str_attr (humidity s3) @ ''%'') s3) = (r2, s2')"
      then show "kept s2 s2'"
      proof (rule andthen_kept)
        show "kept s2
            (snd (Log E (''Fahrenheit: '' @ str_attr (temperature_fahrenheit s2) @ ''F'') s2))"
          by (rule Log_kept) (rule prod.collapse [symmetric])
      next
        fix s3 r3 s3'
        assume "Log E (''Humidity: '' @ str_attr (humidity s3) @ ''%'') s3 = (r3, s3')"
        then show "kept s3 s3'" by (rule Log_kept)
      qed
    qed
  qed
  with k0 show ?thesis by (rule kept_trans)
qed

lemma UpdateLCDDisplay_kept: "kept s (UpdateLCDDisplay E s)"
  by (simp add: kept_def reading_atomic_def UpdateLCDDisplay_def Let_def split: prod.splits)

lemma sleep_kept: "sleep E n s = (r, s') \<Longrightarrow> kept s s'"
  by (auto simp: kept_def reading_atomic_def dest: sleep_frame)

section \<open>The sensor read\<close>

lemma DHT11Read_on_error:
  assumes "dht_read E (world s) = (result, w)" and "\<not> valid result"
  shows "DHT11Read E s =
     Log E (''DHT11 Error: '' @ str_int (error_code result)) (s\<lparr>world := w\<rparr>)"
  using assms by (simp add: DHT11Read_def)

lemma DHT11Read_kept:
  assumes "DHT11Read E s = (r, s')"
  shows "kept s s'" and "adafruit_last_upload s' = adafruit_last_upload s"
proof -
  obtain result w where d: "dht_read E (world s) = (result, w)"
    by (cases "dht_read E (world s)")
  have "kept s s' \<and> adafruit_last_upload s' = adafruit_last_upload s"
  proof (cases "valid result")
    case True
    with assms d show ?thesis
      by (auto simp: DHT11Read_def Let_def kept_def reading_atomic_def)
  next
    case False
    from assms DHT11Read_on_error [OF d False]
    have l: "Log E (''DHT11 Error: '' @ str_int (error_code result)) (s\<lparr>world := w\<rparr>) = (r, s')"
      by simp
    from Log_kept [OF l] Log_frame(4) [OF l] show ?thesis
      by (simp add: kept_def reading_atomic_def)
  qed
  then show "kept s s'" and "adafruit_last_upload s' = adafruit_last_upload s"
    by simp_all
qed

text \<open>A property kept by every pass through the loop holds when \<open>Run\<close> is left.\<close>

lemma Run_invariant:
  assumes run: "Run E s = Some (e, s')"
    and init: "I s"
    and step: "\<And>s r s'. I s \<Longrightarrow> Run_body E s = (r, s') \<Longrightarrow> I s'"
  shows "I s'"
proof -
  have "E = E \<longrightarrow> I s \<longrightarrow> I (snd (e, s'))"
  proof (rule Run.raw_induct [where P = "\<lambda>E0 s0 y. E0 = E \<longrightarrow> I s0 \<longrightarrow> I (snd y)"])
    fix f E1 s1 y1
    assume IH: "\<And>E0 s0 y. f E0 s0 = Some y \<Longrightarrow> E0 = E \<longrightarrow> I s0 \<longrightarrow> I (snd y)"
      and eq: "(case Run_body E1 s1 of (None, s') \<Rightarrow> f E1 s'
                | (Some e, s') \<Rightarrow> Some (e, s')) = Some y1"
    obtain r s2 where b: "Run_body E1 s1 = (r, s2)" by (cases "Run_body E1 s1")
    show "E1 = E \<longrightarrow> I s1 \<longrightarrow> I (snd y1)"
    proof (intro impI)
      assume E1: "E1 = E" and I1: "I s1"
      from step [OF I1] b E1 have I2: "I s2" by simp
      show "I (snd y1)"
      proof (cases r)
        case None
        with eq b have "f E1 s2 = Some y1" by simp
        from IH [OF this] E1 I2 show ?thesis by simp
      next
        case (Some e1)
        with eq b I2 show ?thesis by auto
      qed
    qed
  next
    show "Run E s = Some (e, s')" by (rule run)
  qed
  with init show ?thesis by simp
qed

subsection \<open>Calls of \<open>GPIO.cleanup\<close>\<close>

lemma upload_key_cleanups:
  assumes "upload_key E key v s = (r, s')"
  shows "count_list (trace s') GpioCleanup = count_list (trace s) GpioCleanup"
  using assms
  by (auto simp: upload_key_def Let_def dest!: send_data_frame(6)
      split: if_splits prod.splits sum.splits)

lemma upload_values_cleanups:
  assumes "upload_values E kvs s = (r, s')"
  shows "count_list (trace s') GpioCleanup = count_list (trace s) GpioCleanup"
  using assms
proof (induction kvs arbitrary: s)
  case Nil
  then show ?case by simp
next
  case (Cons kv kvs)
  obtain key v where kv: "kv = (key, v)" by (cases kv)
  obtain r1 s1 where u: "upload_key E key v s = (r1, s1)" by (cases "upload_key E key v s")
  show ?case
  proof (cases r1)
    case None
    with Cons.prems kv u have "upload_values E kvs s1 = (r, s')" by simp
    from Cons.IH [OF this] upload_key_cleanups [OF u] show ?thesis by simp
  next
    case (Some e)
    with Cons.prems kv u have "s' = s1" by simp
    with upload_key_cleanups [OF u] show ?thesis by simp
  qed
qed

lemma AdafruitUpload_cleanups:
  assumes "AdafruitUpload E s = (r, s')"
  shows "count_list (trace s') GpioCleanup = count_list (trace s) GpioCleanup"
proof (cases "adafruit_enabled (config s)")
  case False
  with assms show ?thesis by (simp add: AdafruitUpload_def)
next
  case True
  obtain g s1 where g: "upload_gate E s = (g, s1)" by (cases "upload_gate E s")
  note f1 = upload_gate_frame(6) [OF g]
  show ?thesis
  proof (cases g)
    case (Inl e)
    with assms True g f1 show ?thesis by (simp add: AdafruitUpload_def)
  next
    case (Inr b)
    show ?thesis
    proof (cases b)
      case False
      with assms True g Inr f1 show ?thesis by (simp add: AdafruitUpload_def)
    next
      case b: True
      obtain r2 s2 where u: "upload_values E (GetValueDict s1) s1 = (r2, s2)"
        by (cases "upload_values E (GetValueDict s1) s1")
      note f2 = upload_values_cleanups [OF u]
      from assms True g Inr b u f1 f2 show ?thesis
        by (cases r2) (auto simp: AdafruitUpload_def)
    qed
  qed
qed

lemma AdafruitUpload_kept:
  assumes "AdafruitUpload E s = (r, s')"
  shows "kept s s'"
  using AdafruitUpload_frame [OF assms] AdafruitUpload_cleanups [OF assms]
  by (simp add: kept_def reading_atomic_def)

lemma Run_body_kept:
  assumes "Run_body E s = (r, s')"
  shows "kept s s'"
proof -
  from assms have
    "andthen (GetEnvironmentMetrics E s) (\<lambda>s1.
     andthen (LogResults E s1) (\<lambda>s2.
     andthen (AdafruitUpload E
                (if display_enabled (config s2) then UpdateLCDDisplay E s2 else s2)) (\<lambda>s4.
     sleep E (update_interval (config s4)) s4))) = (r, s')"
    by (simp add: Run_body_def)
  then show ?thesis
  proof (rule andthen_kept)
    show "kept s (snd (GetEnvironmentMetrics E s))"
      unfolding GetEnvironmentMetrics_def
      by (rule DHT11Read_kept(1)) (rule prod.collapse [symmetric])
  next
    fix s1 r1 s1'
    assume "andthen (LogResults E s1) (\<lambda>s2.
       andthen (AdafruitUpload E
                  (if display_enabled (config s2) then UpdateLCDDisplay E s2 else s2)) (\<lambda>s4.
       sleep E (update_interval (config s4)) s4)) = (r1, s1')"
    then show "kept s1 s1'"
    proof (rule andthen_kept)
      show "kept s1 (snd (LogResults E s1))"
        by (rule LogResults_kept) (rule prod.collapse [symmetric])
    next
      fix s2 r2 s2'
      let ?s3 = "if display_enabled (config s2) then UpdateLCDDisplay E s2 else s2"
      assume a: "andthen (AdafruitUpload E ?s3) (\<lambda>s4. sleep E (update_interval (config s4)) s4)
          = (r2, s2')"
      have k3: "kept s2 ?s3" by (simp add: UpdateLCDDisplay_kept)
      from a have "kept ?s3 s2'"
      proof (rule andthen_kept)
        show "kept ?s3 (snd (AdafruitUpload E ?s3))"
          by (rule AdafruitUpload_kept) (rule prod.collapse [symmetric])
      next
        fix s4 r4 s4'
        assume "sleep E (update_interval (config s4)) s4 = (r4, s4')"
        then show "kept s4 s4'" by (rule sleep_kept)
      qed
      with k3 show "kept s2 s2'" by (rule kept_trans)
    qed
  qed
qed

lemma Run_kept:
  assumes "Run E s = Some (e, s')"
  shows "kept s s'"
  using assms
proof (rule Run_invariant [where I = "kept s"])
  show "kept s s" by simp
next
  fix s1 r s2
  assume "kept s s1" and "Run_body E s1 = (r, s2)"
  then show "kept s s2" by (blast intro: kept_trans Run_body_kept)
qed

text \<open>
  C6. When the driver reports the reading invalid, \<open>DHT11Read\<close> passes the message
  \<open>DHT11 Error: <code>\<close> to \<open>Log\<close> (which prints it when the console is enabled)
  and changes no attribute: celsius, fahrenheit, humidity, the time of the last upload
  and the configuration are as before, whether \<open>Log\<close> returns or raises.
\<close>

theorem DHT11Read_invalid:
  assumes "dht_read E (world s) = (result, w)" and "\<not> valid result"
  shows "temperature_celsius (snd (DHT11Read E s)) = temperature_celsius s
       \<and> temperature_fahrenheit (snd (DHT11Read E s)) = temperature_fahrenheit s
       \<and> humidity (snd (DHT11Read E s)) = humidity s
       \<and> adafruit_last_upload (snd (DHT11Read E s)) = adafruit_last_upload s
       \<and> config (snd (DHT11Read E s)) = config s
       \<and> trace (snd (DHT11Read E s)) =
           trace s @ (if console_enabled (config s) = Some True
                      then [Print (''DHT11 Error: '' @ str_int (error_code result))] else [])
       \<and> DHT11Read E s =
           Log E (''DHT11 Error: '' @ str_int (error_code result)) (s\<lparr>world := w\<rparr>)"
proof -
  let ?m = "''DHT11 Error: '' @ str_int (error_code result)"
  have d: "DHT11Read E s = Log E ?m (s\<lparr>world := w\<rparr>)"
    by (rule DHT11Read_on_error [OF assms])
  have l: "Log E ?m (s\<lparr>world := w\<rparr>) = (fst (DHT11Read E s), snd (DHT11Read E s))"
    by (simp add: d)
  from Log_frame [OF l] d show ?thesis by simp
qed

lemma sim_no_reading:
  "dht_read sim_env (world (sim_monitor [] [] [])) = (no_reading, world (sim_monitor [] [] []))"
  by (simp add: sim_env_def sim_monitor_def)

lemma str_int_1: "str_int 1 = ''1''"
  by code_simp

theorem DHT11Read_invalid_witness:
  "dht_read sim_env (world (sim_monitor [] [] [])) = (no_reading, world (sim_monitor [] [] []))
   \<and> \<not> valid no_reading
   \<and> temperature_celsius (snd (DHT11Read sim_env (sim_monitor [] [] []))) = Some ''22.5''
   \<and> temperature_fahrenheit (snd (DHT11Read sim_env (sim_monitor [] [] []))) = Some ''72.5''
   \<and> humidity (snd (DHT11Read sim_env (sim_monitor [] [] []))) = Some ''49''
   \<and> trace (snd (DHT11Read sim_env (sim_monitor [] [] []))) = [Print ''DHT11 Error: 1'']"
proof -
  have v: "\<not> valid no_reading" by (simp add: no_reading_def)
  have c: "console_enabled (config (sim_monitor [] [] [])) = Some True"
    and e: "error_code no_reading = 1"
    and t: "trace (sim_monitor [] [] []) = []"
    and r: "temperature_celsius (sim_monitor [] [] []) = Some ''22.5''"
      "temperature_fahrenheit (sim_monitor [] [] []) = Some ''72.5''"
      "humidity (sim_monitor [] [] []) = Some ''49''"
    by (simp_all add: sim_monitor_def sim_config_def no_reading_def)
  from DHT11Read_invalid [OF sim_no_reading v]
  have "temperature_celsius (snd (DHT11Read sim_env (sim_monitor [] [] [])))
        = temperature_celsius (sim_monitor [] [] [])
      \<and> temperature_fahrenheit (snd (DHT11Read sim_env (sim_monitor [] [] [])))
        = temperature_fahrenheit (sim_monitor [] [] [])
      \<and> humidity (snd (DHT11Read sim_env (sim_monitor [] [] [])))
        = humidity (sim_monitor [] [] [])
      \<and> trace (snd (DHT11Read sim_env (sim_monitor [] [] []))) =
           trace (sim_monitor [] [] []) @
             (if console_enabled (config (sim_monitor [] [] [])) = Some True
              then [Print (''DHT11 Error: '' @ str_int (error_code no_reading))] else [])"
    by blast
  with sim_no_reading v c e t r str_int_1 show ?thesis by simp
qed

section \<open>The reading is all or nothing\<close>

lemma AirMonitor_init_atomic: "AirMonitor_init cfg w = Inr s0 \<Longrightarrow> reading_atomic s0"
  by (auto simp: AirMonitor_init_def reading_atomic_def split: option.splits)

lemma kept_atomic: "kept s s' \<Longrightarrow> reading_atomic s \<Longrightarrow> reading_atomic s'"
  by (simp add: kept_def)

lemma Cleanup_kept_reading:
  assumes "Cleanup E s = (r, s')"
  shows "reading_atomic s \<Longrightarrow> reading_atomic s'" and "config s' = config s"
proof -
  from assms have "andthen (Log E ''Shutting Down'' s) (\<lambda>s1. (None, emit GpioCleanup s1)) = (r, s')"
    by (simp add: Cleanup_def)
  then have "(reading_atomic s \<longrightarrow> reading_atomic s') \<and> config s' = config s"
  proof (cases rule: andthen_cases)
    case (1 e)
    from Log_frame [OF 1(1)] show ?thesis by (simp add: reading_atomic_def)
  next
    case (2 s1)
    from Log_frame [OF 2(1)] 2(2) show ?thesis by (auto simp: reading_atomic_def)
  qed
  then show "reading_atomic s \<Longrightarrow> reading_atomic s'" and "config s' = config s"
    by simp_all
qed

text \<open>
  C7. A new monitor holds no reading, and every method keeps the three values all absent
  or all present, whether it returns or raises: the sensor read, the reports on the
  console and the display, the upload, a pass of the main loop, the main loop when it is
  left, and the cleanup.
\<close>

theorem reading_atomic_invariant:
  "(AirMonitor_init cfg w = Inr s0 \<longrightarrow> reading_atomic s0)
   \<and> (reading_atomic s \<longrightarrow>
        reading_atomic (snd (DHT11Read E s))
      \<and> reading_atomic (snd (GetEnvironmentMetrics E s))
      \<and> reading_atomic (snd (LogResults E s))
      \<and> reading_atomic (UpdateLCDDisplay E s)
      \<and> reading_atomic (snd (AdafruitUpload E s))
      \<and> reading_atomic (snd (Run_body E s))
      \<and> reading_atomic (snd (Cleanup E s))
      \<and> (\<forall>e s'. Run E s = Some (e, s') \<longrightarrow> reading_atomic s')
      \<and> (\<forall>e s'. main_try E s = Some (e, s') \<longrightarrow> reading_atomic s'))"
proof (intro conjI impI allI)
  assume "AirMonitor_init cfg w = Inr s0"
  then show "reading_atomic s0" by (rule AirMonitor_init_atomic)
next
  assume a: "reading_atomic s"
  have "kept s (snd (DHT11Read E s))"
    by (rule DHT11Read_kept(1)) (rule prod.collapse [symmetric])
  then show d: "reading_atomic (snd (DHT11Read E s))" using a by (rule kept_atomic)
  then show "reading_atomic (snd (GetEnvironmentMetrics E s))"
    by (simp add: GetEnvironmentMetrics_def)
  have "kept s (snd (LogResults E s))"
    by (rule LogResults_kept) (rule prod.collapse [symmetric])
  then show "reading_atomic (snd (LogResults E s))" using a by (rule kept_atomic)
  show "reading_atomic (UpdateLCDDisplay E s)"
    using UpdateLCDDisplay_kept a by (rule kept_atomic)
  have "kept s (snd (AdafruitUpload E s))"
    by (rule AdafruitUpload_kept) (rule prod.collapse [symmetric])
  then show "reading_atomic (snd (AdafruitUpload E s))" using a by (rule kept_atomic)
  have "kept s (snd (Run_body E s))"
    by (rule Run_body_kept) (rule prod.collapse [symmetric])
  then show "reading_atomic (snd (Run_body E s))" using a by (rule kept_atomic)
  show "reading_atomic (snd (Cleanup E s))"
    using Cleanup_kept_reading(1) [of E s "fst (Cleanup E s)" "snd (Cleanup E s)"] a by simp
  show "reading_atomic s'" if "Run E s = Some (e, s')" for e s'
    using Run_kept [OF that] a by (rule kept_atomic)
  show "reading_atomic s'" if "main_try E s = Some (e, s')" for e s'
  proof -
    from that obtain e0 s1 r where r: "Run E s = Some (e0, s1)" and c: "Cleanup E s1 = (r, s')"
      by (auto simp: main_try_def split: option.splits prod.splits)
    from Run_kept [OF r] a have "reading_atomic s1" by (rule kept_atomic)
    with Cleanup_kept_reading(1) [OF c] show ?thesis by simp
  qed
qed

theorem reading_atomic_invariant_witness:
  "AirMonitor_init sim_config (world (sim_monitor [] [] [])) =
     Inr ((sim_monitor [] [] [])\<lparr>temperature_celsius := None, temperature_fahrenheit := None,
            humidity := None\<rparr>)
   \<and> reading_atomic ((sim_monitor [] [] [])\<lparr>temperature_celsius := None,
        temperature_fahrenheit := None, humidity := None\<rparr>)
   \<and> reading_atomic (sim_monitor [] [] [])
   \<and> reading_atomic (snd (DHT11Read sim_env (sim_monitor [] [] [])))
   \<and> reading_atomic (snd (AdafruitUpload sim_env (sim_monitor [] [] [])))
   \<and> reading_atomic (snd (Run_body sim_env (sim_monitor [] [] [])))"
proof -
  have i: "AirMonitor_init sim_config (world (sim_monitor [] [] [])) =
     Inr ((sim_monitor [] [] [])\<lparr>temperature_celsius := None, temperature_fahrenheit := None,
            humidity := None\<rparr>)"
    by (simp add: AirMonitor_init_def SetupSesnors_def sim_config_def sim_monitor_def)
  have a: "reading_atomic (sim_monitor [] [] [])"
    by (simp add: reading_atomic_def sim_monitor_def)
  from reading_atomic_invariant [of sim_config "world (sim_monitor [] [] [])"
      "(sim_monitor [] [] [])\<lparr>temperature_celsius := None, temperature_fahrenheit := None,
            humidity := None\<rparr>" "sim_monitor [] [] []" sim_env] i a
  show ?thesis by simp
qed

section \<open>The upload\<close>

lemma may_upload_not_due:
  assumes "valid_datetime l" "valid_datetime (l + iv * 60000000)"
    and "t < l + iv * 60000000"
  shows "may_upload (Some l) iv t = Inr False"
  using due_time [OF assms(1,2)] assms(3) by (simp add: may_upload_def)

lemma AdafruitUpload_permitted:
  assumes "adafruit_enabled (config s)" and "upload_gate E s = (Inr True, s1)"
  shows "AdafruitUpload E s =
     (case upload_values E (GetValueDict s1) s1 of
        (Some e, s2) \<Rightarrow> (Some e, s2)
      | (None, s2) \<Rightarrow> (None, record_attempt E s2))"
  using assms by (simp add: AdafruitUpload_def)

text \<open>
  C10. When the upload is permitted and the monitor holds no reading, \<open>AdafruitUpload\<close>
  makes no call on the client and still records the clock's reading as the time of the
  last upload; the test then fails at every time before that reading plus the interval,
  so the first upload of a reading can come a whole interval later.
\<close>

theorem upload_without_reading:
  assumes "adafruit_enabled (config s)"
    and "temperature_celsius s = None"
    and "temperature_fahrenheit s = None"
    and "humidity s = None"
    and "upload_gate E s = (Inr True, s1)"
  shows "AdafruitUpload E s = (None, record_attempt E s1)
       \<and> trace (record_attempt E s1) = trace s
       \<and> adafruit_last_upload (record_attempt E s1) = Some (fst (now E (world s1)))
       \<and> (\<forall>t. valid_datetime (fst (now E (world s1)))
              \<and> valid_datetime (fst (now E (world s1)) + upload_interval (config s) * 60000000)
              \<and> t < fst (now E (world s1)) + upload_interval (config s) * 60000000
            \<longrightarrow> may_upload (adafruit_last_upload (record_attempt E s1))
                  (upload_interval (config s)) t = Inr False)"
proof -
  note f = upload_gate_frame [OF assms(5)]
  have "\<forall>kv \<in> set (GetValueDict s1). \<not> truthy (snd kv)"
    using assms(2-4) f by (simp add: GetValueDict_def truthy_def)
  then have "upload_values E (GetValueDict s1) s1 = (None, s1)"
    by (rule upload_values_no_value)
  then have "AdafruitUpload E s = (None, record_attempt E s1)"
    using AdafruitUpload_permitted [OF assms(1,5)] by simp
  moreover have "trace (record_attempt E s1) = trace s"
    using f by simp
  ultimately show ?thesis
    by (auto simp: record_attempt_last_upload intro: may_upload_not_due)
qed

text \<open>A new monitor in the simulated world, before any sensor read.\<close>

lemma sim_new_gate:
  "upload_gate sim_env ((sim_monitor [] [] [])\<lparr>temperature_celsius := None,
      temperature_fahrenheit := None, humidity := None\<rparr>) =
   (Inr True, (sim_monitor [] [] [])\<lparr>temperature_celsius := None,
      temperature_fahrenheit := None, humidity := None\<rparr>)"
  by (simp add: upload_gate_def sim_monitor_def)

theorem upload_without_reading_witness:
  "adafruit_enabled (config ((sim_monitor [] [] [])\<lparr>temperature_celsius := None,
      temperature_fahrenheit := None, humidity := None\<rparr>))
   \<and> fst (AdafruitUpload sim_env ((sim_monitor [] [] [])\<lparr>temperature_celsius := None,
      temperature_fahrenheit := None, humidity := None\<rparr>)) = None
   \<and> trace (snd (AdafruitUpload sim_env ((sim_monitor [] [] [])\<lparr>temperature_celsius := None,
      temperature_fahrenheit := None, humidity := None\<rparr>))) = []
   \<and> adafruit_last_upload (snd (AdafruitUpload sim_env ((sim_monitor [] [] [])\<lparr>
        temperature_celsius := None, temperature_fahrenheit := None, humidity := None\<rparr>)))
      = Some 63000000000000000
   \<and> may_upload (Some 63000000000000000) 5 63000000299999999 = Inr False"
proof -
  let ?s = "(sim_monitor [] [] [])\<lparr>temperature_celsius := None,
      temperature_fahrenheit := None, humidity := None\<rparr>"
  have a: "adafruit_enabled (config ?s)"
    and n: "temperature_celsius ?s = None" "temperature_fahrenheit ?s = None" "humidity ?s = None"
    and t: "trace ?s = []"
    and c: "fst (now sim_env (world ?s)) = 63000000000000000"
    and i: "upload_interval (config ?s) = 5"
    by (simp_all add: sim_monitor_def sim_config_def sim_env_def)
  have v: "valid_datetime 63000000000000000" "valid_datetime 63000000300000000"
    by (simp_all add: valid_datetime_def datetime_max_def)
  note w = upload_without_reading [OF a n sim_new_gate]
  have "may_upload (Some 63000000000000000) 5 63000000299999999 = Inr False"
    using w c i v by (auto dest!: spec [where x = "63000000299999999::int"])
  with w a t c i show ?thesis by simp
qed

text \<open>Every attribute but the time of the last upload is as \<open>AdafruitUpload\<close> found it.\<close>

lemma AdafruitUpload_raises:
  assumes "adafruit_enabled (config s)" and "upload_gate E s = (Inr True, s1)"
    and "upload_values E (GetValueDict s1) s1 = (Some e, s2)"
  shows "AdafruitUpload E s = (Some e, s2)"
    and "adafruit_last_upload s2 = adafruit_last_upload s"
  using AdafruitUpload_permitted [OF assms(1,2)] assms(3)
    upload_values_frame [OF assms(3)] upload_gate_frame(4) [OF assms(2)]
  by simp_all

text \<open>
  C2, as the code has it. In an upload that the throttle permits, the time of the last
  upload is set once, to the clock's reading after the pass, when every channel's push
  returns. When a push raises, the exception leaves \<open>AdafruitUpload\<close> and the time of
  the last upload is left as it was.
\<close>

theorem last_upload_recorded:
  assumes "adafruit_enabled (config s)" and "upload_gate E s = (Inr True, s1)"
    and "upload_values E (GetValueDict s1) s1 = (r, s2)"
  shows "(r = None \<longrightarrow>
            AdafruitUpload E s = (None, record_attempt E s2)
          \<and> adafruit_last_upload (snd (AdafruitUpload E s)) = Some (fst (now E (world s2))))
       \<and> (\<forall>e. r = Some e \<longrightarrow>
            AdafruitUpload E s = (Some e, s2)
          \<and> adafruit_last_upload (snd (AdafruitUpload E s)) = adafruit_last_upload s)"
proof (intro conjI impI allI)
  assume "r = None"
  with AdafruitUpload_permitted [OF assms(1,2)] assms(3)
  show "AdafruitUpload E s = (None, record_attempt E s2)" by simp
  then show "adafruit_last_upload (snd (AdafruitUpload E s)) = Some (fst (now E (world s2)))"
    by (simp add: record_attempt_last_upload)
next
  fix e assume "r = Some e"
  with assms(3) have u: "upload_values E (GetValueDict s1) s1 = (Some e, s2)" by simp
  from AdafruitUpload_raises [OF assms(1,2) u]
  show "AdafruitUpload E s = (Some e, s2)"
    and "adafruit_last_upload (snd (AdafruitUpload E s)) = adafruit_last_upload s"
    by simp_all
qed

subsection \<open>Uploads in the simulated world\<close>

lemmas sim_defs = sim_env_def sim_monitor_def sim_config_def

lemmas upload_defs = AdafruitUpload_def upload_gate_def GetValueDict_def upload_key_def
  truthy_def send_data_def emit_def record_attempt_def Let_def

lemma sim_upload_all_created:
  "AdafruitUpload sim_env (sim_monitor [] [] []) =
     (None, (sim_monitor [''humidity'', ''celsius'', ''fahrenheit''] [] [])
        \<lparr>adafruit_last_upload := Some 63000000000000000,
         world := (world (sim_monitor [''humidity'', ''celsius'', ''fahrenheit''] [] []))
                    \<lparr>clock := 63000000000000001\<rparr>,
         trace := [Feeds ''fahrenheit'', CreateFeed ''fahrenheit'', SendData ''fahrenheit'' ''72.5'',
                   Feeds ''celsius'', CreateFeed ''celsius'', SendData ''celsius'' ''22.5'',
                   Feeds ''humidity'', CreateFeed ''humidity'', SendData ''humidity'' ''49'']\<rparr>)"
  by (simp add: sim_defs upload_defs)

lemma sim_upload_send_fails:
  "AdafruitUpload sim_env
     (sim_monitor [''fahrenheit'', ''celsius'', ''humidity''] [] [''fahrenheit'']) =
     (Some (OtherError ''send failed''),
      (sim_monitor [''fahrenheit'', ''celsius'', ''humidity''] [] [''fahrenheit''])
        \<lparr>trace := [Feeds ''fahrenheit'', SendData ''fahrenheit'' ''72.5'']\<rparr>)"
  by (simp add: sim_defs upload_defs)

text \<open>
  C2, as the specification has it, fails when the first push raises: the upload was
  permitted and attempted, and no time of upload is recorded.
\<close>

theorem last_upload_recorded_counterexample:
  "adafruit_enabled
     (config (sim_monitor [''fahrenheit'', ''celsius'', ''humidity''] [] [''fahrenheit'']))
   \<and> fst (upload_gate sim_env
        (sim_monitor [''fahrenheit'', ''celsius'', ''humidity''] [] [''fahrenheit''])) = Inr True
   \<and> fst (AdafruitUpload sim_env
        (sim_monitor [''fahrenheit'', ''celsius'', ''humidity''] [] [''fahrenheit'']))
       = Some (OtherError ''send failed'')
   \<and> SendData ''fahrenheit'' ''72.5'' \<in> set (trace (snd (AdafruitUpload sim_env
        (sim_monitor [''fahrenheit'', ''celsius'', ''humidity''] [] [''fahrenheit'']))))
   \<and> adafruit_last_upload (snd (AdafruitUpload sim_env
        (sim_monitor [''fahrenheit'', ''celsius'', ''humidity''] [] [''fahrenheit''])))
       = None"
  by (simp add: sim_upload_send_fails) (simp add: sim_defs upload_gate_def)

theorem last_upload_recorded_witness:
  "adafruit_enabled (config (sim_monitor [] [] []))
   \<and> upload_gate sim_env (sim_monitor [] [] []) = (Inr True, sim_monitor [] [] [])
   \<and> fst (upload_values sim_env (GetValueDict (sim_monitor [] [] [])) (sim_monitor [] [] []))
       = None
   \<and> fst (AdafruitUpload sim_env (sim_monitor [] [] [])) = None
   \<and> adafruit_last_upload (snd (AdafruitUpload sim_env (sim_monitor [] [] [])))
       = Some 63000000000000000"
proof -
  let ?s = "sim_monitor [] [] []"
  have a: "adafruit_enabled (config ?s)" by (simp add: sim_defs)
  have g: "upload_gate sim_env ?s = (Inr True, ?s)" by (simp add: sim_defs upload_gate_def)
  have r: "fst (upload_values sim_env (GetValueDict ?s) ?s) = None"
    by (simp add: sim_defs upload_defs)
  have c: "fst (now sim_env (world (snd (upload_values sim_env (GetValueDict ?s) ?s))))
      = 63000000000000000"
    by (simp add: sim_defs upload_defs)
  have u: "upload_values sim_env (GetValueDict ?s) ?s =
      (fst (upload_values sim_env (GetValueDict ?s) ?s),
       snd (upload_values sim_env (GetValueDict ?s) ?s))"
    by simp
  from last_upload_recorded [OF a g u] a g r c
  show ?thesis by (simp add: record_attempt_last_upload)
qed

section \<open>The pass over the three channels\<close>









text \<open>
  C8. When the lookup of a channel that has a value raises \<open>RequestError\<close> and the
  creation returns a feed, the round makes exactly three calls: the lookup, the creation
  of a feed of that name, and one send of the value to the key of the feed just created.
  The round ends as that send ends; nothing is sent a second time.
\<close>

theorem missing_channel_created:
  assumes "v \<noteq> []"
    and "aio_feeds E key (world s) = (Inl RequestError, w1)"
    and "aio_create_feed E key w1 = (Inr fk, w2)"
  shows "trace (snd (upload_key E key (Some v) s))
           = trace s @ [Feeds key, CreateFeed key, SendData fk v]
       \<and> fst (upload_key E key (Some v) s) = fst (aio_send_data E fk v w2)
       \<and> world (snd (upload_key E key (Some v) s)) = snd (aio_send_data E fk v w2)
       \<and> length (filter is_send
             (drop (length (trace s)) (trace (snd (upload_key E key (Some v) s))))) = 1"
  using assms
  by (simp add: upload_key_def truthy_def send_data_def Let_def split: prod.splits)

text \<open>A pass in a world that knows fahrenheit and celsius but not humidity.\<close>

lemma sim_humidity_missing:
  "upload_key sim_env ''fahrenheit'' (Some ''72.5'') (sim_monitor [''fahrenheit'', ''celsius''] [] [])
     = (None, (sim_monitor [''fahrenheit'', ''celsius''] [] [])
          \<lparr>trace := [Feeds ''fahrenheit'', SendData ''fahrenheit'' ''72.5'']\<rparr>)"
  "upload_key sim_env ''celsius'' (Some ''22.5'')
     ((sim_monitor [''fahrenheit'', ''celsius''] [] [])
          \<lparr>trace := [Feeds ''fahrenheit'', SendData ''fahrenheit'' ''72.5'']\<rparr>)
     = (None, (sim_monitor [''fahrenheit'', ''celsius''] [] [])
          \<lparr>trace := [Feeds ''fahrenheit'', SendData ''fahrenheit'' ''72.5'',
                     Feeds ''celsius'', SendData ''celsius'' ''22.5'']\<rparr>)"
  by (simp_all add: sim_defs upload_defs)

theorem missing_channel_created_witness:
  "''49'' \<noteq> []
   \<and> fst (aio_feeds sim_env ''humidity''
        (world ((sim_monitor [''fahrenheit'', ''celsius''] [] [])
          \<lparr>trace := [Feeds ''fahrenheit'', SendData ''fahrenheit'' ''72.5'',
                     Feeds ''celsius'', SendData ''celsius'' ''22.5'']\<rparr>))) = Inl RequestError
   \<and> fst (aio_create_feed sim_env ''humidity''
        (world (sim_monitor [''fahrenheit'', ''celsius''] [] []))) = Inr ''humidity''
   \<and> trace (snd (upload_key sim_env ''humidity'' (Some ''49'')
        ((sim_monitor [''fahrenheit'', ''celsius''] [] [])
          \<lparr>trace := [Feeds ''fahrenheit'', SendData ''fahrenheit'' ''72.5'',
                     Feeds ''celsius'', SendData ''celsius'' ''22.5'']\<rparr>)))
      = [Feeds ''fahrenheit'', SendData ''fahrenheit'' ''72.5'',
         Feeds ''celsius'', SendData ''celsius'' ''22.5'',
         Feeds ''humidity'', CreateFeed ''humidity'', SendData ''humidity'' ''49'']
   \<and> fst (upload_key sim_env ''humidity'' (Some ''49'')
        ((sim_monitor [''fahrenheit'', ''celsius''] [] [])
          \<lparr>trace := [Feeds ''fahrenheit'', SendData ''fahrenheit'' ''72.5'',
                     Feeds ''celsius'', SendData ''celsius'' ''22.5'']\<rparr>)) = None"
proof -
  let ?s = "(sim_monitor [''fahrenheit'', ''celsius''] [] [])
          \<lparr>trace := [Feeds ''fahrenheit'', SendData ''fahrenheit'' ''72.5'',
                     Feeds ''celsius'', SendData ''celsius'' ''22.5'']\<rparr>"
  let ?w = "world (sim_monitor [''fahrenheit'', ''celsius''] [] [])"
  have v: "''49'' \<noteq> []" by simp
  have l: "aio_feeds sim_env ''humidity'' (world ?s) = (Inl RequestError, ?w)"
    by (simp add: sim_defs)
  have c: "aio_create_feed sim_env ''humidity'' ?w
      = (Inr ''humidity'', ?w\<lparr>known_feeds := [''humidity'', ''fahrenheit'', ''celsius'']\<rparr>)"
    by (simp add: sim_defs)
  have d: "fst (aio_send_data sim_env ''humidity'' ''49''
      (?w\<lparr>known_feeds := [''humidity'', ''fahrenheit'', ''celsius'']\<rparr>)) = None"
    by (simp add: sim_defs)
  from missing_channel_created [OF v l c] l c d
  show ?thesis by simp
qed

section \<open>Leaving the main loop\<close>

lemma Cleanup_returns:
  assumes "Log E ''Shutting Down'' s = (None, s1)"
  shows "Cleanup E s = (None, emit GpioCleanup s1)"
    and "trace (emit GpioCleanup s1) =
      trace s @ (if console_enabled (config s) = Some True then [Print ''Shutting Down''] else [])
        @ [GpioCleanup]"
  using assms Log_frame(6) [OF assms] by (simp_all add: Cleanup_def andthen_def)

lemma Cleanup_raises:
  assumes "Log E ''Shutting Down'' s = (Some e, s1)"
  shows "Cleanup E s = (Some e, s1)"
    and "count_list (trace s1) GpioCleanup = count_list (trace s) GpioCleanup"
  using assms Log_frame(6) [OF assms] by (simp_all add: Cleanup_def andthen_def)

lemma Log_returns_iff:
  "fst (Log E m s) = None \<longleftrightarrow>
     console_enabled (config s) = Some False
     \<or> (console_enabled (config s) = Some True \<and> fst (console_print E m (world s)) = None)"
  by (auto simp: Log_def split: option.splits prod.splits)

lemma main_try_iff:
  "main_try E s = Some r \<longleftrightarrow>
     (\<exists>e s1. Run E s = Some (e, s1)
        \<and> r = (case Cleanup E s1 of (None, s2) \<Rightarrow> (e, s2) | (Some e2, s2) \<Rightarrow> (e2, s2)))"
  by (auto simp: main_try_def split: option.splits prod.splits)

lemma Run_cleanups:
  assumes "Run E s = Some (e, s')"
  shows "count_list (trace s') GpioCleanup = count_list (trace s) GpioCleanup"
  using Run_kept [OF assms] by (simp add: kept_def)

text \<open>
  C9, as the code has it. The main program ends exactly when \<open>Run\<close> is left by an
  exception, be it the interrupt or an error of the loop body, and the \<open>finally\<close>
  clause then runs \<open>Cleanup\<close> on the state \<open>Run\<close> left. \<open>Cleanup\<close> calls
  \<open>Log\<close> first, which returns when the switch of the console is in the configuration
  and \<open>print\<close>, if called, does not fail. When it returns, \<open>GPIO.cleanup\<close> is called
  as the last call, once, the loop having made no such call, and the exception that leaves
  the program is the one that left \<open>Run\<close>. When it raises, \<open>GPIO.cleanup\<close> is not
  called and the exception of \<open>Log\<close> leaves the program instead.
\<close>

theorem cleanup_after_loop:
  "(main_try E s = Some r \<longleftrightarrow>
      (\<exists>e s1. Run E s = Some (e, s1)
         \<and> r = (case Cleanup E s1 of (None, s2) \<Rightarrow> (e, s2) | (Some e2, s2) \<Rightarrow> (e2, s2))))
   \<and> (fst (Log E m s1) = None \<longleftrightarrow>
        console_enabled (config s1) = Some False
        \<or> (console_enabled (config s1) = Some True
            \<and> fst (console_print E m (world s1)) = None))
   \<and> (Run E s = Some (e, s1) \<longrightarrow>
        (\<forall>s2. Log E ''Shutting Down'' s1 = (None, s2) \<longrightarrow>
            main_try E s = Some (e, emit GpioCleanup s2)
          \<and> trace (emit GpioCleanup s2) =
              trace s1
                @ (if console_enabled (config s1) = Some True then [Print ''Shutting Down'']
                   else [])
                @ [GpioCleanup]
          \<and> count_list (trace (emit GpioCleanup s2)) GpioCleanup
              = count_list (trace s) GpioCleanup + 1
          \<and> (\<forall>cfg w. AirMonitor_init cfg w = Inr s \<longrightarrow>
                main E cfg w = Some (e, trace (emit GpioCleanup s2))
              \<and> count_list (trace (emit GpioCleanup s2)) GpioCleanup = 1))
      \<and> (\<forall>e2 s2. Log E ''Shutting Down'' s1 = (Some e2, s2) \<longrightarrow>
            main_try E s = Some (e2, s2)
          \<and> count_list (trace s2) GpioCleanup = count_list (trace s) GpioCleanup
          \<and> (\<forall>cfg w. AirMonitor_init cfg w = Inr s \<longrightarrow>
                main E cfg w = Some (e2, trace s2)
              \<and> count_list (trace s2) GpioCleanup = 0)))"
proof (intro conjI impI allI)
  show "main_try E s = Some r \<longleftrightarrow>
      (\<exists>e s1. Run E s = Some (e, s1)
         \<and> r = (case Cleanup E s1 of (None, s2) \<Rightarrow> (e, s2) | (Some e2, s2) \<Rightarrow> (e2, s2)))"
    by (rule main_try_iff)
next
  show "fst (Log E m s1) = None \<longleftrightarrow>
        console_enabled (config s1) = Some False
        \<or> (console_enabled (config s1) = Some True
            \<and> fst (console_print E m (world s1)) = None)"
    by (rule Log_returns_iff)
next
  fix s2
  assume r: "Run E s = Some (e, s1)" and l: "Log E ''Shutting Down'' s1 = (None, s2)"
  from r Cleanup_returns(1) [OF l]
  show m: "main_try E s = Some (e, emit GpioCleanup s2)" by (simp add: main_try_def)
  show t: "trace (emit GpioCleanup s2) =
      trace s1
        @ (if console_enabled (config s1) = Some True then [Print ''Shutting Down''] else [])
        @ [GpioCleanup]"
    by (rule Cleanup_returns(2) [OF l])
  show c: "count_list (trace (emit GpioCleanup s2)) GpioCleanup
      = count_list (trace s) GpioCleanup + 1"
    using Run_cleanups [OF r] Log_frame(6) [OF l] by simp
  fix cfg w
  assume i: "AirMonitor_init cfg w = Inr s"
  with m show "main E cfg w = Some (e, trace (emit GpioCleanup s2))" by (simp add: main_def)
  from i have "trace s = []" by (auto simp: AirMonitor_init_def split: option.splits)
  with c show "count_list (trace (emit GpioCleanup s2)) GpioCleanup = 1" by simp
next
  fix e2 s2
  assume r: "Run E s = Some (e, s1)" and l: "Log E ''Shutting Down'' s1 = (Some e2, s2)"
  from r Cleanup_raises(1) [OF l]
  show m: "main_try E s = Some (e2, s2)" by (simp add: main_try_def)
  show c: "count_list (trace s2) GpioCleanup = count_list (trace s) GpioCleanup"
    using Run_cleanups [OF r] Cleanup_raises(2) [OF l] by simp
  fix cfg w
  assume i: "AirMonitor_init cfg w = Inr s"
  with m show "main E cfg w = Some (e2, trace s2)" by (simp add: main_def)
  from i have "trace s = []" by (auto simp: AirMonitor_init_def split: option.splits)
  with c show "count_list (trace s2) GpioCleanup = 0" by simp
qed

text \<open>
  In the simulated world the user interrupts the first sleep; with a send that fails, the
  first pass raises the error instead. Without the section \<open>LOGGING\<close> the first call
  of \<open>Log\<close> raises, in the loop and again in \<open>Cleanup\<close>.
\<close>

lemmas body_defs = Run_body_def GetEnvironmentMetrics_def DHT11Read_def LogResults_def
  UpdateLCDDisplay_def Log_def sleep_def no_reading_def andthen_def

lemma sim_interrupted:
  "fst (Run_body sim_env (sim_monitor [] [] [])) = Some KeyboardInterrupt"
  "console_enabled (config (snd (Run_body sim_env (sim_monitor [] [] [])))) = Some True"
  by (simp_all add: sim_defs upload_defs body_defs)

lemma sim_send_error:
  "fst (Run_body sim_env (sim_monitor [] [] [''fahrenheit''])) = Some (OtherError ''send failed'')"
  "console_enabled (config (snd (Run_body sim_env (sim_monitor [] [] [''fahrenheit''])))) = Some True"
  by (simp_all add: sim_defs upload_defs body_defs)

lemma sim_no_logging:
  "Run_body sim_env ((sim_monitor [] [] [])\<lparr>config := sim_config_no_logging\<rparr>)
     = (Some KeyError, (sim_monitor [] [] [])\<lparr>config := sim_config_no_logging\<rparr>)"
  "Log sim_env ''Shutting Down'' ((sim_monitor [] [] [])\<lparr>config := sim_config_no_logging\<rparr>)
     = (Some KeyError, (sim_monitor [] [] [])\<lparr>config := sim_config_no_logging\<rparr>)"
  "trace ((sim_monitor [] [] [])\<lparr>config := sim_config_no_logging\<rparr>) = []"
  "AirMonitor_init sim_config_no_logging (world (sim_monitor [] [] []))
     = Inr ((sim_monitor [] [] [])\<lparr>config := sim_config_no_logging,
          temperature_celsius := None, temperature_fahrenheit := None, humidity := None\<rparr>)"
  by (simp_all add: sim_defs sim_config_no_logging_def body_defs AirMonitor_init_def
      SetupSesnors_def)

lemma Run_leaves:
  assumes "fst (Run_body E s) = Some e"
  shows "Run E s = Some (e, snd (Run_body E s))"
  using assms by (subst Run.simps) (auto split: prod.splits)

lemma sim_Log_returns:
  assumes "console_enabled (config s) = Some True"
  shows "Log sim_env m s = (None, emit (Print m) s)"
  using assms by (simp add: Log_def sim_env_def)

theorem cleanup_after_loop_witness:
  "Run sim_env (sim_monitor [] [] []) \<noteq> None
   \<and> map_option fst (main_try sim_env (sim_monitor [] [] [])) = Some KeyboardInterrupt
   \<and> map_option (\<lambda>r. count_list (trace (snd r)) GpioCleanup)
        (main_try sim_env (sim_monitor [] [] [])) = Some 1
   \<and> map_option (\<lambda>r. last (trace (snd r)))
        (main_try sim_env (sim_monitor [] [] [])) = Some GpioCleanup
   \<and> map_option fst (main_try sim_env (sim_monitor [] [] [''fahrenheit'']))
        = Some (OtherError ''send failed'')
   \<and> map_option (\<lambda>r. count_list (trace (snd r)) GpioCleanup)
        (main_try sim_env (sim_monitor [] [] [''fahrenheit''])) = Some 1
   \<and> Run sim_env ((sim_monitor [] [] [])\<lparr>config := sim_config_no_logging\<rparr>) \<noteq> None
   \<and> map_option (\<lambda>r. count_list (trace (snd r)) GpioCleanup)
        (main_try sim_env ((sim_monitor [] [] [])\<lparr>config := sim_config_no_logging\<rparr>)) = Some 0"
proof -
  let ?s = "sim_monitor [] [] []"
  let ?t = "sim_monitor [] [] [''fahrenheit'']"
  let ?u = "(sim_monitor [] [] [])\<lparr>config := sim_config_no_logging\<rparr>"
  let ?s1 = "snd (Run_body sim_env ?s)"
  let ?t1 = "snd (Run_body sim_env ?t)"
  note r1 = Run_leaves [OF sim_interrupted(1)]
  note r2 = Run_leaves [OF sim_send_error(1)]
  have r3: "Run sim_env ?u = Some (KeyError, ?u)"
    using Run_leaves [of sim_env ?u KeyError] by (simp add: sim_no_logging(1))
  note l1 = sim_Log_returns [OF sim_interrupted(2), of "''Shutting Down''"]
  note l2 = sim_Log_returns [OF sim_send_error(2), of "''Shutting Down''"]
  have t: "trace ?s = []" "trace ?t = []" by (simp_all add: sim_defs)
  have a: "main_try sim_env ?s = Some (KeyboardInterrupt, emit GpioCleanup (emit (Print ''Shutting Down'') ?s1))
      \<and> count_list (trace (emit GpioCleanup (emit (Print ''Shutting Down'') ?s1))) GpioCleanup
          = count_list (trace ?s) GpioCleanup + 1"
    using cleanup_after_loop [of sim_env ?s _ _ ?s1 KeyboardInterrupt] r1 l1 by blast
  have b: "main_try sim_env ?t = Some (OtherError ''send failed'',
        emit GpioCleanup (emit (Print ''Shutting Down'') ?t1))
      \<and> count_list (trace (emit GpioCleanup (emit (Print ''Shutting Down'') ?t1))) GpioCleanup
          = count_list (trace ?t) GpioCleanup + 1"
    using cleanup_after_loop [of sim_env ?t _ _ ?t1 "OtherError ''send failed''"] r2 l2 by blast
  have c: "main_try sim_env ?u = Some (KeyError, ?u)
      \<and> count_list (trace ?u) GpioCleanup = count_list (trace ?u) GpioCleanup"
    using cleanup_after_loop [of sim_env ?u _ _ ?u KeyError] r3 sim_no_logging(2) by blast
  from a b c r1 r3 t sim_no_logging(3) show ?thesis by simp
qed

text \<open>
  C9, as the specification has it, fails for a configuration file without the section
  \<open>LOGGING\<close>: the first pass of the loop raises \<open>KeyError\<close> in \<open>Log\<close>, the
  \<open>finally\<close> clause runs \<open>Cleanup\<close>, its call of \<open>Log\<close> raises again, and the
  program ends without any call of \<open>GPIO.cleanup\<close>.
\<close>

theorem cleanup_after_loop_counterexample:
  "AirMonitor_init sim_config_no_logging (world (sim_monitor [] [] []))
     = Inr ((sim_monitor [] [] [])\<lparr>config := sim_config_no_logging,
          temperature_celsius := None, temperature_fahrenheit := None, humidity := None\<rparr>)
   \<and> Run sim_env ((sim_monitor [] [] [])\<lparr>config := sim_config_no_logging,
          temperature_celsius := None, temperature_fahrenheit := None, humidity := None\<rparr>)
     = Some (KeyError, (sim_monitor [] [] [])\<lparr>config := sim_config_no_logging,
          temperature_celsius := None, temperature_fahrenheit := None, humidity := None\<rparr>)
   \<and> main sim_env sim_config_no_logging (world (sim_monitor [] [] [])) = Some (KeyError, [])
   \<and> count_list [] GpioCleanup = 0"
proof -
  let ?u = "(sim_monitor [] [] [])\<lparr>config := sim_config_no_logging,
          temperature_celsius := None, temperature_fahrenheit := None, humidity := None\<rparr>"
  have b: "Run_body sim_env ?u = (Some KeyError, ?u)"
    by (simp add: sim_defs sim_config_no_logging_def body_defs)
  have r: "Run sim_env ?u = Some (KeyError, ?u)"
    using Run_leaves [of sim_env ?u KeyError] by (simp add: b)
  have c: "Cleanup sim_env ?u = (Some KeyError, ?u)"
    by (simp add: Cleanup_def andthen_def Log_def sim_defs sim_config_no_logging_def)
  have t: "trace ?u = []" by (simp add: sim_defs)
  from r c t show ?thesis
    by (simp add: main_def main_try_def sim_no_logging(4))
qed

section \<open>Formatting and conversion\<close>

lemmas float_defs = int_truediv_def float_of_int_def to_double_def scale2_def
  round_half_even_def bits.simps double_of_scaled_def signed_def Let_def

lemmas format_defs = FormatResult_def format_3g_def sig3_def scale10_def scale2_def
  round_half_even_def str_nat.simps digit_char_def rstrip0_def sign_str_def exp_str_def
  with_point_def Let_def

text \<open>Some doubles: 1.8, 0.1 + 0.2, 22.0, 0.5, 50.0, -1.0, 32.0, 21.456 and 1.5e10.\<close>

lemma double_9_5: "int_truediv 9 5 = Finite False 8106479329266893 (- 52)"
  by (simp add: float_defs)

lemma double_sum_tenths:
  "fadd (int_truediv 1 10) (int_truediv 2 10) = Finite False 5404319552844596 (- 54)"
  by (simp add: float_defs)

lemma double_22: "float_of_int 22 = Finite False 6192449487634432 (- 48)"
  by (simp add: float_defs)

lemma double_half: "int_truediv 1 2 = Finite False 4503599627370496 (- 53)"
  by (simp add: float_defs)

lemma double_50: "float_of_int 50 = Finite False 7036874417766400 (- 47)"
  by (simp add: float_defs)

lemma double_minus_1: "float_of_int (- 1) = Finite True 4503599627370496 (- 52)"
  by (simp add: float_defs)

lemma double_32: "float_of_int 32 = Finite False 4503599627370496 (- 47)"
  by (simp add: float_defs)

lemma double_21: "float_of_int 21 = Finite False 5910974510923776 (- 48)"
  by (simp add: float_defs)

lemma double_21_456: "int_truediv 21456 1000 = Finite False 6039327100303835 (- 48)"
  by (simp add: float_defs)

lemma double_0: "float_of_int 0 = Finite False 0 0"
  by (simp add: float_defs)

lemma double_15e9: "float_of_int 15000000000 = Finite False 7864320000000000 (- 19)"
  by (simp add: float_defs)

text \<open>The calibrated values of the reading \<open>(22.0, 50.0)\<close> with offsets \<open>(+0.5, -1.0)\<close>.\<close>

lemma calibrated_22_5:
  "fadd (Finite False 6192449487634432 (- 48)) (Finite False 4503599627370496 (- 53))
     = Finite False 6333186975989760 (- 48)"
  by (simp add: float_defs)

lemma calibrated_49:
  "fadd (Finite False 7036874417766400 (- 47)) (Finite True 4503599627370496 (- 52))
     = Finite False 6896136929411072 (- 47)"
  by (simp add: float_defs)

lemma ctof_22_5:
  "ctof (Finite False 6333186975989760 (- 48)) = Finite False 5101733952880640 (- 46)"
proof -
  have "fmul (Finite False 6333186975989760 (- 48)) (Finite False 8106479329266893 (- 52))
      = Finite False 5699868278390784 (- 47)"
    by (simp add: float_defs)
  moreover have "fadd (Finite False 5699868278390784 (- 47)) (Finite False 4503599627370496 (- 47))
      = Finite False 5101733952880640 (- 46)"
    by (simp add: float_defs)
  ultimately show ?thesis by (simp add: ctof_def double_9_5 double_32)
qed

lemma FormatResult_22_5: "FormatResult (Finite False 6333186975989760 (- 48)) = ''22.5''"
  by (simp add: format_defs)

lemma FormatResult_72_5: "FormatResult (Finite False 5101733952880640 (- 46)) = ''72.5''"
  by (simp add: format_defs)

lemma FormatResult_49: "FormatResult (Finite False 6896136929411072 (- 47)) = ''49''"
  by (simp add: format_defs)

text \<open>The examples of the formatter: 21.0, 21.456 and 0.0.\<close>

lemma FormatResult_examples:
  "FormatResult (float_of_int 21) = ''21''"
  "FormatResult (int_truediv 21456 1000) = ''21.5''"
  "FormatResult (float_of_int 0) = ''0''"
  by (simp_all add: double_21 double_21_456 double_0) (simp_all add: format_defs)

subsection \<open>Positional notation is left as it is\<close>

lemma digit_char_cases:
  assumes "n < 10"
  shows "digit_char n \<in> set ''0123456789''" and "digit_char n = CHR ''0'' \<longleftrightarrow> n = 0"
  using assms by (auto simp: digit_char_def less_Suc_eq numeral_eq_Suc)

lemma str_nat_digits: "set (str_nat n) \<subseteq> set ''0123456789''"
proof (induction n rule: str_nat.induct)
  case (1 n)
  show ?case
  proof (cases "n < 10")
    case True
    then show ?thesis
      using digit_char_cases(1) [of n] by (subst str_nat.simps) simp
  next
    case False
    have "n mod 10 < 10" by simp
    from digit_char_cases(1) [OF this] 1 [OF False] False show ?thesis
      by (subst str_nat.simps) simp
  qed
qed

lemma str_nat_nonzero_digit: "0 < n \<Longrightarrow> \<exists>c \<in> set (str_nat n). c \<noteq> CHR ''0''"
proof (induction n rule: str_nat.induct)
  case (1 n)
  show ?case
  proof (cases "n < 10")
    case True
    with 1(2) digit_char_cases(2) [of n] show ?thesis
      by (subst str_nat.simps) simp
  next
    case False
    then have "0 < n div 10" by simp
    from 1(1) [OF False this] False show ?thesis
      by (subst str_nat.simps) auto
  qed
qed

lemma str_nat_bounds:
  "0 < n \<Longrightarrow> 10 ^ (length (str_nat n) - 1) \<le> n \<and> n < 10 ^ length (str_nat n)"
proof (induction n rule: str_nat.induct)
  case (1 n)
  show ?case
  proof (cases "n < 10")
    case True
    with 1(2) show ?thesis by (subst (1 2) str_nat.simps) simp
  next
    case False
    then have p: "0 < n div 10" by simp
    define L where "L = length (str_nat (n div 10))"
    from 1(1) [OF False p] have lo: "10 ^ (L - 1) \<le> n div 10" and hi: "n div 10 < 10 ^ L"
      by (simp_all add: L_def)
    from hi p have L: "0 < L" by (cases L) simp_all
    have len: "length (str_nat n) = Suc L"
      using False by (subst str_nat.simps) (simp add: L_def)
    from L have "(10::nat) ^ L = 10 * 10 ^ (L - 1)" by (cases L) simp_all
    with lo have "10 ^ L \<le> 10 * (n div 10)" by simp
    also have "\<dots> \<le> n" by simp
    finally have a: "10 ^ L \<le> n" .
    from hi have "n div 10 + 1 \<le> 10 ^ L" by simp
    then have "10 * (n div 10 + 1) \<le> 10 * 10 ^ L" by (rule mult_le_mono2)
    moreover have "n < 10 * (n div 10 + 1)" by presburger
    ultimately have b: "n < 10 ^ Suc L" by simp
    from a b len show ?thesis by simp
  qed
qed

lemma round_half_even_ge: "n div d \<le> round_half_even n d"
  by (simp add: round_half_even_def Let_def)

text \<open>The three digits that \<open>sig3\<close> returns are not all zero.\<close>

lemma sig3_nonzero:
  assumes "0 < n" and "0 < d" and "sig3 n d = (k, x)"
  shows "0 < k"
proof -
  define ln where "ln = length (str_nat n)"
  define ld where "ld = length (str_nat d)"
  from str_nat_bounds [OF assms(1)] have n: "10 ^ (ln - 1) \<le> n" "n < 10 ^ ln"
    by (simp_all add: ln_def)
  from str_nat_bounds [OF assms(2)] have d: "10 ^ (ld - 1) \<le> d" "d < 10 ^ ld"
    by (simp_all add: ld_def)
  from n(2) assms(1) have ln: "0 < ln" by (cases ln) simp_all
  from d(2) assms(2) have ld: "0 < ld" by (cases ld) simp_all
  define x0 where "x0 = int ln - int ld"
  define y where "y = (if snd (scale10 n d x0) \<le> fst (scale10 n d x0) then x0 else x0 - 1)"
  have ge: "snd (scale10 n d y) \<le> fst (scale10 n d y)"
  proof (cases "snd (scale10 n d x0) \<le> fst (scale10 n d x0)")
    case True
    then show ?thesis by (simp add: y_def)
  next
    case False
    then have y: "y = x0 - 1" by (simp add: y_def)
    show ?thesis
    proof (cases "0 \<le> y")
      case True
      then have "nat y + ld = ln - 1" using y x0_def ln ld by simp
      then have e: "(10::nat) ^ ld * 10 ^ nat y = 10 ^ (ln - 1)"
        by (metis add.commute power_add)
      have "d * 10 ^ nat y \<le> 10 ^ ld * 10 ^ nat y"
        using d(2) by (simp add: mult_le_mono1)
      also note e
      also note n(1)
      finally have "d * 10 ^ nat y \<le> n" .
      with True show ?thesis by (simp add: scale10_def)
    next
      case False
      then have "nat (- y) + (ln - 1) = ld" using y x0_def ln ld by simp
      then have e: "(10::nat) ^ ld = 10 ^ (ln - 1) * 10 ^ nat (- y)"
        by (metis add.commute power_add)
      have "d \<le> 10 ^ ld" using d(2) by simp
      also note e
      also have "10 ^ (ln - 1) * 10 ^ nat (- y) \<le> n * 10 ^ nat (- y)"
        using n(1) by (simp add: mult_le_mono1)
      finally have "d \<le> n * 10 ^ nat (- y)" .
      with False show ?thesis by (simp add: scale10_def)
    qed
  qed
  have ge2: "snd (scale10 n d (y - 2)) \<le> fst (scale10 n d (y - 2))"
  proof (cases "0 \<le> y - 2")
    case True
    then have "nat y = nat (y - 2) + 2" by simp
    then have "(10::nat) ^ nat y = 10 ^ nat (y - 2) * 100" by (simp add: power_add)
    then have "d * 10 ^ nat (y - 2) \<le> d * 10 ^ nat y" by simp
    also have "\<dots> \<le> n" using ge True by (simp add: scale10_def)
    finally show ?thesis using True by (simp add: scale10_def)
  next
    case False
    show ?thesis
    proof (cases "0 \<le> y")
      case True
      have "d \<le> d * 10 ^ nat y" by simp
      also have "\<dots> \<le> n" using ge True by (simp add: scale10_def)
      also have "\<dots> \<le> n * 10 ^ nat (- (y - 2))" by simp
      finally show ?thesis using False by (simp add: scale10_def)
    next
      case y: False
      then have "nat (- (y - 2)) = nat (- y) + 2" by simp
      then have "(10::nat) ^ nat (- (y - 2)) = 10 ^ nat (- y) * 100" by (simp add: power_add)
      then have le: "n * 10 ^ nat (- y) \<le> n * 10 ^ nat (- (y - 2))" by simp
      have "d \<le> n * 10 ^ nat (- y)" using ge y by (simp add: scale10_def)
      also note le
      finally have "d \<le> n * 10 ^ nat (- (y - 2))" .
      then show ?thesis using False by (simp add: scale10_def)
    qed
  qed
  have dpos: "0 < snd (scale10 n d (y - 2))"
    using assms(2) by (simp add: scale10_def)
  from ge2 dpos have "0 < fst (scale10 n d (y - 2)) div snd (scale10 n d (y - 2))"
    by (simp add: div_greater_zero_iff)
  then have r: "0 < round_half_even (fst (scale10 n d (y - 2))) (snd (scale10 n d (y - 2)))"
    using round_half_even_ge [of "fst (scale10 n d (y - 2))" "snd (scale10 n d (y - 2))"]
    by linarith
  have "k = (if round_half_even (fst (scale10 n d (y - 2))) (snd (scale10 n d (y - 2))) = 1000
             then 100
             else round_half_even (fst (scale10 n d (y - 2))) (snd (scale10 n d (y - 2))))"
    using assms(3)
    by (auto simp: sig3_def Let_def y_def x0_def ln_def ld_def split: prod.splits if_splits)
  with r show ?thesis by simp
qed

lemma rstrip0_keep: "s \<noteq> [] \<Longrightarrow> last s \<noteq> CHR ''0'' \<Longrightarrow> rstrip0 s = s"
  by (cases s rule: rev_cases) (simp_all add: rstrip0_def)

lemma rstrip0_last:
  assumes "\<exists>c \<in> set s. c \<noteq> CHR ''0''"
  shows "rstrip0 s \<noteq> []" and "last (rstrip0 s) \<noteq> CHR ''0''"
proof -
  let ?xs = "dropWhile (\<lambda>c. c = CHR ''0'') (rev s)"
  from assms show ne: "rstrip0 s \<noteq> []"
    by (simp add: rstrip0_def dropWhile_eq_Nil_conv)
  then have "?xs \<noteq> []" by (simp add: rstrip0_def)
  then have "hd ?xs \<noteq> CHR ''0''" using hd_dropWhile [of "\<lambda>c. c = CHR ''0''" "rev s"] by simp
  moreover have "last (rstrip0 s) = hd ?xs"
    using \<open>?xs \<noteq> []\<close> by (simp add: rstrip0_def last_rev)
  ultimately show "last (rstrip0 s) \<noteq> CHR ''0''" by simp
qed

lemma set_rstrip0: "set (rstrip0 s) \<subseteq> set s"
  by (auto simp: rstrip0_def dest: set_dropWhileD)

lemma FormatResult_unchanged:
  assumes "format_3g v = r"
    and "CHR ''.'' \<in> set r \<Longrightarrow> r \<noteq> [] \<and> last r \<noteq> CHR ''0''"
  shows "FormatResult v = r"
  using assms by (auto simp: FormatResult_def Let_def rstrip0_keep)

text \<open>
  For a value that the format \<open>.3g\<close> writes in positional notation (decimal exponent
  \<open>X\<close> with \<open>-4 \<le> X < 3\<close>), \<open>_FormatResult\<close> returns the text of the format: when
  it holds a point it ends with a digit that is not zero, so nothing is stripped.
\<close>

lemma FormatResult_positional:
  assumes m: "0 < m"
    and s: "sig3 (fst (scale2 m 1 (- e))) (snd (scale2 m 1 (- e))) = (k, x)"
    and x: "- 4 \<le> x" "x < 3"
  shows "FormatResult (Finite sg m e) = format_3g (Finite sg m e)"
proof -
  define ds where "ds = rstrip0 (str_nat k)"
  have "0 < fst (scale2 m 1 (- e))" and "0 < snd (scale2 m 1 (- e))"
    using m by (simp_all add: scale2_def)
  from sig3_nonzero [OF this s] have k: "0 < k" .
  from rstrip0_last [OF str_nat_nonzero_digit [OF k]]
  have ds: "ds \<noteq> []" "last ds \<noteq> CHR ''0''" by (simp_all add: ds_def)
  have "set ds \<subseteq> set ''0123456789''"
    using set_rstrip0 [of "str_nat k"] str_nat_digits [of k] by (auto simp: ds_def)
  then have nodot: "CHR ''.'' \<notin> set ds" by auto
  define body where "body =
    (if 0 \<le> x then
       with_point (take (nat x + 1) (ds @ replicate (nat x + 1 - length ds) CHR ''0''))
         (drop (nat x + 1) ds)
     else ''0.'' @ replicate (nat (- x - 1)) CHR ''0'' @ ds)"
  obtain n d where nd: "scale2 m 1 (- e) = (n, d)" by (cases "scale2 m 1 (- e)")
  with s have kx: "sig3 n d = (k, x)" by simp
  have f: "format_3g (Finite sg m e) = sign_str sg @ body"
    using m x nd kx by (simp add: format_3g_def Let_def body_def ds_def)
  have b: "body \<noteq> [] \<and> last body \<noteq> CHR ''0''" if "CHR ''.'' \<in> set body"
  proof (cases "0 \<le> x")
    case False
    with ds show ?thesis by (simp add: body_def)
  next
    case True
    show ?thesis
    proof (cases "drop (nat x + 1) ds = []")
      case fp: True
      have "set (take (nat x + 1) (ds @ replicate (nat x + 1 - length ds) CHR ''0''))
          \<subseteq> set ds \<union> {CHR ''0''}"
        by (auto dest!: in_set_takeD)
      with nodot have "CHR ''.'' \<notin> set body"
        using True fp by (auto simp: body_def with_point_def)
      with that show ?thesis by simp
    next
      case fp: False
      then have "last (drop (nat x + 1) ds) = last ds" by (simp add: last_drop)
      with ds fp True show ?thesis by (simp add: body_def with_point_def)
    qed
  qed
  have "sign_str sg @ body \<noteq> [] \<and> last (sign_str sg @ body) \<noteq> CHR ''0''"
    if "CHR ''.'' \<in> set (sign_str sg @ body)"
  proof -
    from that have "CHR ''.'' \<in> set body" by (auto simp: sign_str_def split: if_splits)
    from b [OF this] show ?thesis by simp
  qed
  from FormatResult_unchanged [OF f this] f show ?thesis by simp
qed

text \<open>
  C3. For the float 1.5e10 the format \<open>.3g\<close> gives \<open>1.5e+10\<close>. The text holds a
  point, so \<open>_FormatResult\<close> strips the zeros at its end, which here is the last digit
  of the exponent: the result \<open>1.5e+1\<close> is the number 15.
\<close>

theorem FormatResult_strips_exponent:
  "format_3g (float_of_int 15000000000) = ''1.5e+10''
   \<and> FormatResult (float_of_int 15000000000) = ''1.5e+1''"
  by (simp add: double_15e9) (simp add: format_defs)

text \<open>
  C4. On a valid result \<open>DHT11Read\<close> stores the formatted sum of the raw temperature
  and its offset as celsius, the formatted sum of the raw humidity and its offset as
  humidity, and as fahrenheit the formatted value of \<open>(c * (9/5)) + 32\<close> for the
  calibrated temperature \<open>c\<close> before formatting. For the raw reading \<open>(22.0, 50.0)\<close>
  and the offsets \<open>(+0.5, -1.0)\<close> the values are \<open>22.5\<close>, \<open>72.5\<close> and \<open>49\<close>.
\<close>

theorem DHT11Read_valid:
  assumes "dht_read E (world s) = (result, w)" and "valid result"
  shows "fst (DHT11Read E s) = None
       \<and> temperature_celsius (snd (DHT11Read E s)) =
           Some (FormatResult (fadd (temperature result) (temperature_calibration (config s))))
       \<and> temperature_fahrenheit (snd (DHT11Read E s)) =
           Some (FormatResult
             (fadd (fmul (fadd (temperature result) (temperature_calibration (config s)))
                      (int_truediv 9 5))
                (float_of_int 32)))
       \<and> humidity (snd (DHT11Read E s)) =
           Some (FormatResult (fadd (dht_humidity result) (humidity_calibration (config s))))
       \<and> (temperature result = float_of_int 22 \<and> dht_humidity result = float_of_int 50
            \<and> temperature_calibration (config s) = int_truediv 1 2
            \<and> humidity_calibration (config s) = float_of_int (- 1)
          \<longrightarrow> temperature_celsius (snd (DHT11Read E s)) = Some ''22.5''
            \<and> temperature_fahrenheit (snd (DHT11Read E s)) = Some ''72.5''
            \<and> humidity (snd (DHT11Read E s)) = Some ''49'')"
proof -
  have r: "DHT11Read E s =
      (None,
       s\<lparr>world := w,
         temperature_celsius :=
           Some (FormatResult (fadd (temperature result) (temperature_calibration (config s)))),
         temperature_fahrenheit :=
           Some (FormatResult
             (ctof (fadd (temperature result) (temperature_calibration (config s))))),
         humidity :=
           Some (FormatResult (fadd (dht_humidity result) (humidity_calibration (config s))))\<rparr>)"
    using assms by (simp add: DHT11Read_def Let_def)
  have ex: "FormatResult (fadd (float_of_int 22) (int_truediv 1 2)) = ''22.5''"
    "FormatResult (ctof (fadd (float_of_int 22) (int_truediv 1 2))) = ''72.5''"
    "FormatResult (fadd (float_of_int 50) (float_of_int (- 1))) = ''49''"
    by (simp_all only: double_22 double_half double_50 double_minus_1 calibrated_22_5
        calibrated_49 ctof_22_5 FormatResult_22_5 FormatResult_72_5 FormatResult_49)
  show ?thesis
  proof (intro conjI impI)
    show "fst (DHT11Read E s) = None" by (simp add: r)
    show "temperature_celsius (snd (DHT11Read E s)) =
           Some (FormatResult (fadd (temperature result) (temperature_calibration (config s))))"
      by (simp add: r)
    show "temperature_fahrenheit (snd (DHT11Read E s)) =
           Some (FormatResult
             (fadd (fmul (fadd (temperature result) (temperature_calibration (config s)))
                      (int_truediv 9 5))
                (float_of_int 32)))"
      by (simp only: r ctof_def) simp
    show "humidity (snd (DHT11Read E s)) =
           Some (FormatResult (fadd (dht_humidity result) (humidity_calibration (config s))))"
      by (simp add: r)
  next
    assume a: "temperature result = float_of_int 22 \<and> dht_humidity result = float_of_int 50
            \<and> temperature_calibration (config s) = int_truediv 1 2
            \<and> humidity_calibration (config s) = float_of_int (- 1)"
    show "temperature_celsius (snd (DHT11Read E s)) = Some ''22.5''"
      using a ex(1) by (simp only: r) simp
    show "temperature_fahrenheit (snd (DHT11Read E s)) = Some ''72.5''"
      using a ex(2) by (simp only: r) simp
    show "humidity (snd (DHT11Read E s)) = Some ''49''"
      using a ex(3) by (simp only: r) simp
  qed
qed

text \<open>A new monitor in the simulated world whose sensor delivers the reading.\<close>

theorem DHT11Read_valid_witness:
  "dht_read sim_env ((world (sim_monitor [] [] []))\<lparr>readings := [sim_reading]\<rparr>)
     = (sim_reading, world (sim_monitor [] [] []))
   \<and> valid sim_reading
   \<and> temperature_celsius (snd (DHT11Read sim_env
        ((sim_monitor [] [] [])\<lparr>temperature_celsius := None, temperature_fahrenheit := None,
           humidity := None, world := (world (sim_monitor [] [] []))\<lparr>readings := [sim_reading]\<rparr>\<rparr>)))
       = Some ''22.5''
   \<and> temperature_fahrenheit (snd (DHT11Read sim_env
        ((sim_monitor [] [] [])\<lparr>temperature_celsius := None, temperature_fahrenheit := None,
           humidity := None, world := (world (sim_monitor [] [] []))\<lparr>readings := [sim_reading]\<rparr>\<rparr>)))
       = Some ''72.5''
   \<and> humidity (snd (DHT11Read sim_env
        ((sim_monitor [] [] [])\<lparr>temperature_celsius := None, temperature_fahrenheit := None,
           humidity := None, world := (world (sim_monitor [] [] []))\<lparr>readings := [sim_reading]\<rparr>\<rparr>)))
       = Some ''49''"
proof -
  let ?s = "(sim_monitor [] [] [])\<lparr>temperature_celsius := None, temperature_fahrenheit := None,
           humidity := None, world := (world (sim_monitor [] [] []))\<lparr>readings := [sim_reading]\<rparr>\<rparr>"
  have d: "dht_read sim_env (world ?s) = (sim_reading, world (sim_monitor [] [] []))"
    by (simp add: sim_env_def sim_monitor_def)
  have v: "valid sim_reading" by (simp add: sim_reading_def)
  have i: "temperature sim_reading = float_of_int 22 \<and> dht_humidity sim_reading = float_of_int 50
      \<and> temperature_calibration (config ?s) = int_truediv 1 2
      \<and> humidity_calibration (config ?s) = float_of_int (- 1)"
    by (simp add: sim_reading_def sim_monitor_def sim_config_def)
  have w: "world ?s = (world (sim_monitor [] [] []))\<lparr>readings := [sim_reading]\<rparr>" by simp
  from DHT11Read_valid [OF d v] i
  have "temperature_celsius (snd (DHT11Read sim_env ?s)) = Some ''22.5''
      \<and> temperature_fahrenheit (snd (DHT11Read sim_env ?s)) = Some ''72.5''
      \<and> humidity (snd (DHT11Read sim_env ?s)) = Some ''49''"
    by blast
  with d v w show ?thesis by simp
qed

end
